theory Spec2Isabelle
  imports Complex_Main "HOL-Library.Monad_Syntax" "HOL-Library.AList"
begin

section \<open>JavaScript values and the operations the program applies to them\<close>

text \<open>
  The pipeline of \<^verbatim>\<open>layers.ts\<close> and \<^verbatim>\<open>pipeline.ts\<close> receives its raw
  input with the TypeScript type \<^verbatim>\<open>any\<close>. The model takes such a value to be plain
  data: \<^verbatim>\<open>undefined\<close>, \<^verbatim>\<open>null\<close>, a boolean, a number, a string, an array or
  an object whose properties are data again. Functions, getters, proxies, symbols and
  objects that shadow \<^verbatim>\<open>toString\<close> or \<^verbatim>\<open>valueOf\<close> are outside the model.

  A number is \<^verbatim>\<open>NaN\<close>, an infinity, or a finite value; finite values are exact
  rationals, so the rounding of IEEE doubles is not modelled (\<^verbatim>\<open>0.2 * 3\<close> is
  \<open>3/5\<close>). A string is a list of 8-bit characters, one per code unit.
  An object is an association list in property order; a key is looked up at its first
  occurrence.
\<close>

datatype jsnum = NaN | Fin rat | PosInf | NegInf

datatype jsval =
    JUndefined
  | JNull
  | JBool bool
  | JNum jsnum
  | JStr string
  | JArr "jsval list"
  | JObj "(string \<times> jsval) list"

type_synonym obj = "(string \<times> jsval) list"

text \<open>
  What the language runtime supplies and the repository does not define: the clock read
  by \<^verbatim>\<open>Date.now()\<close> (one reading for the whole call: the reads of a call see the
  same instant), the conversions between strings and numbers, and the case mapping of
  \<^verbatim>\<open>String.prototype.toLowerCase\<close>. Every function of the model that uses one of
  them takes the runtime as its first argument, and every theorem below holds for any
  runtime.
\<close>

record runtime =
  Date_now :: rat
  StringToNumber :: "string \<Rightarrow> jsnum"
  NumberToString :: "jsnum \<Rightarrow> string"
  toFixed :: "jsnum \<Rightarrow> nat \<Rightarrow> string"
  toLowerCase :: "string \<Rightarrow> string"

text \<open>The exceptions: a stage raises a \<^verbatim>\<open>TypeError\<close> (the value \<open>None\<close> of a stage's
  result), and \<^verbatim>\<open>carPipeline\<close> rethrows it as \<^verbatim>\<open>Error("Pipeline failed: ...")\<close>.\<close>

datatype error = PipelineFailed

definition newline :: string where
  "newline = [CHR 0x0A]"

fun join :: "string \<Rightarrow> string list \<Rightarrow> string" where
  "join sep [] = []"
| "join sep [x] = x"
| "join sep (x # y # ys) = x @ sep @ join sep (y # ys)"

text \<open>Truthiness, as \<^verbatim>\<open>if (v)\<close>, \<^verbatim>\<open>!v\<close>, \<^verbatim>\<open>a && b\<close> and \<^verbatim>\<open>a || b\<close> read it.\<close>

fun js_truthy :: "jsval \<Rightarrow> bool" where
  "js_truthy JUndefined = False"
| "js_truthy JNull = False"
| "js_truthy (JBool b) = b"
| "js_truthy (JNum n) = (n \<noteq> NaN \<and> n \<noteq> Fin 0)"
| "js_truthy (JStr s) = (s \<noteq> [])"
| "js_truthy (JArr xs) = True"
| "js_truthy (JObj kvs) = True"

definition js_or :: "jsval \<Rightarrow> jsval \<Rightarrow> jsval" where
  "js_or a b = (if js_truthy a then a else b)"

definition js_and :: "jsval \<Rightarrow> jsval \<Rightarrow> jsval" where
  "js_and a b = (if js_truthy a then b else a)"

text \<open>
  Reading a property. On an object the own property, \<^verbatim>\<open>undefined\<close> when there is
  none (the names this program reads are not members of \<^verbatim>\<open>Object.prototype\<close>,
  \<^verbatim>\<open>Array.prototype\<close> or \<^verbatim>\<open>String.prototype\<close>, \<^verbatim>\<open>length\<close> apart); on
  \<^verbatim>\<open>null\<close> and \<^verbatim>\<open>undefined\<close> a \<^verbatim>\<open>TypeError\<close>.
\<close>

definition obj_get :: "obj \<Rightarrow> string \<Rightarrow> jsval" where
  "obj_get kvs k = (case map_of kvs k of None \<Rightarrow> JUndefined | Some v \<Rightarrow> v)"

definition obj_set :: "obj \<Rightarrow> string \<Rightarrow> jsval \<Rightarrow> obj" where
  "obj_set kvs k v = AList.update k v kvs"

definition js_length :: "nat \<Rightarrow> jsval" where
  "js_length n = JNum (Fin (of_nat n))"

fun js_get :: "jsval \<Rightarrow> string \<Rightarrow> jsval option" where
  "js_get JUndefined k = None"
| "js_get JNull k = None"
| "js_get (JBool b) k = Some JUndefined"
| "js_get (JNum n) k = Some JUndefined"
| "js_get (JStr s) k = Some (if k = ''length'' then js_length (length s) else JUndefined)"
| "js_get (JArr xs) k = Some (if k = ''length'' then js_length (length xs) else JUndefined)"
| "js_get (JObj kvs) k = Some (obj_get kvs k)"

text \<open>\<^verbatim>\<open>context?.k\<close> on the optional context, and \<^verbatim>\<open>v?.length\<close>.\<close>

definition context_get :: "obj option \<Rightarrow> string \<Rightarrow> jsval" where
  "context_get context k = (case context of None \<Rightarrow> JUndefined | Some c \<Rightarrow> obj_get c k)"

definition js_get_opt :: "jsval \<Rightarrow> string \<Rightarrow> jsval" where
  "js_get_opt v k = (case js_get v k of None \<Rightarrow> JUndefined | Some x \<Rightarrow> x)"

text \<open>The object spread \<^verbatim>\<open>{ ...v }\<close>: the own enumerable properties of \<open>v\<close>.\<close>

fun show_nat :: "nat \<Rightarrow> string" where
  "show_nat n =
     (if n < 10 then [''0123456789'' ! n]
      else show_nat (n div 10) @ [''0123456789'' ! (n mod 10)])"

declare show_nat.simps [simp del]

definition index_keys :: "nat \<Rightarrow> string list" where
  "index_keys n = map show_nat [0..<n]"

fun spread :: "jsval \<Rightarrow> obj" where
  "spread (JObj kvs) = kvs"
| "spread (JArr xs) = zip (index_keys (length xs)) xs"
| "spread (JStr s) = zip (index_keys (length s)) (map (\<lambda>c. JStr [c]) s)"
| "spread v = []"

text \<open>
  \<^verbatim>\<open>ToString\<close> (template literals, property keys) and \<^verbatim>\<open>ToNumber\<close> (the
  operands of \<^verbatim>\<open><\<close> and \<^verbatim>\<open>>\<close>). An array is converted through
  \<^verbatim>\<open>join(",")\<close>, a plain object is \<^verbatim>\<open>"[object Object]"\<close>.
\<close>

fun ToString :: "runtime \<Rightarrow> jsval \<Rightarrow> string" where
  "ToString rt JUndefined = ''undefined''"
| "ToString rt JNull = ''null''"
| "ToString rt (JBool b) = (if b then ''true'' else ''false'')"
| "ToString rt (JNum n) = NumberToString rt n"
| "ToString rt (JStr s) = s"
| "ToString rt (JArr xs) =
     join '','' (map (\<lambda>x. if x = JUndefined \<or> x = JNull then [] else ToString rt x) xs)"
| "ToString rt (JObj kvs) = ''[object Object]''"

fun ToNumber :: "runtime \<Rightarrow> jsval \<Rightarrow> jsnum" where
  "ToNumber rt JUndefined = NaN"
| "ToNumber rt JNull = Fin 0"
| "ToNumber rt (JBool b) = Fin (if b then 1 else 0)"
| "ToNumber rt (JNum n) = n"
| "ToNumber rt (JStr s) = StringToNumber rt s"
| "ToNumber rt (JArr xs) = StringToNumber rt (ToString rt (JArr xs))"
| "ToNumber rt (JObj kvs) = StringToNumber rt (ToString rt (JObj kvs))"

fun num_lt :: "jsnum \<Rightarrow> jsnum \<Rightarrow> bool" where
  "num_lt (Fin a) (Fin b) = (a < b)"
| "num_lt (Fin a) PosInf = True"
| "num_lt NegInf (Fin b) = True"
| "num_lt NegInf PosInf = True"
| "num_lt x y = False"

text \<open>\<^verbatim>\<open>v > c\<close> and \<^verbatim>\<open>v < c\<close> against a numeric literal \<open>c\<close>.\<close>

definition js_gt :: "runtime \<Rightarrow> jsval \<Rightarrow> rat \<Rightarrow> bool" where
  "js_gt rt v c = num_lt (Fin c) (ToNumber rt v)"

definition js_lt :: "runtime \<Rightarrow> jsval \<Rightarrow> rat \<Rightarrow> bool" where
  "js_lt rt v c = num_lt (ToNumber rt v) (Fin c)"

text \<open>
  Method calls. \<^verbatim>\<open>v.includes(s)\<close> exists on strings (substring) and arrays (member);
  \<^verbatim>\<open>v.startsWith(s)\<close> and \<^verbatim>\<open>v.toLowerCase()\<close> on strings only;
  \<^verbatim>\<open>v.slice(0, 10)\<close> on strings and arrays. On every other value the method is
  \<^verbatim>\<open>undefined\<close> (or the read itself fails) and the call raises a \<^verbatim>\<open>TypeError\<close>.
\<close>

definition starts_with :: "string \<Rightarrow> string \<Rightarrow> bool" where
  "starts_with s p = (take (length p) s = p)"

fun str_includes :: "string \<Rightarrow> string \<Rightarrow> bool" where
  "str_includes [] sub = (sub = [])"
| "str_includes (c # cs) sub = (starts_with (c # cs) sub \<or> str_includes cs sub)"

fun js_includes :: "jsval \<Rightarrow> string \<Rightarrow> bool option" where
  "js_includes (JStr s) sub = Some (str_includes s sub)"
| "js_includes (JArr xs) sub = Some (JStr sub \<in> set xs)"
| "js_includes v sub = None"

fun js_startsWith :: "jsval \<Rightarrow> string \<Rightarrow> bool option" where
  "js_startsWith (JStr s) p = Some (starts_with s p)"
| "js_startsWith v p = None"

fun js_toLowerCase :: "runtime \<Rightarrow> jsval \<Rightarrow> string option" where
  "js_toLowerCase rt (JStr s) = Some (toLowerCase rt s)"
| "js_toLowerCase rt v = None"

fun js_slice_0_10 :: "jsval \<Rightarrow> jsval option" where
  "js_slice_0_10 (JStr s) = Some (JStr (take 10 s))"
| "js_slice_0_10 (JArr xs) = Some (JArr (take 10 xs))"
| "js_slice_0_10 v = None"

section \<open>The interfaces of layers.ts\<close>

text \<open>
  Fields typed \<^verbatim>\<open>any\<close> are \<open>jsval\<close>; fields with a declared type have it.
  Isabelle's record fields are global names, so the \<^verbatim>\<open>reason\<close> fields of the
  different result types carry a prefix, and \<^verbatim>\<open>context\<close> (an Isabelle keyword) is
  \<open>inputContext\<close>.
\<close>

record SensibilityInput =
  rawData :: jsval
  inputContext :: "obj option"

text \<open>
  \<^verbatim>\<open>metadata.source\<close> is what \<^verbatim>\<open>detectSource\<close> returns: a value, or, when
  \<^verbatim>\<open>chainMap[data.chainId]\<close> hits a member that the object literal inherits from
  \<^verbatim>\<open>Object.prototype\<close>, that member.
\<close>

datatype source = Src jsval | ObjectPrototypeMember string

record Metadata =
  dataType :: string
  source :: source
  timestamp :: jsnum

record UnderstandingOutput =
  categorizedData :: obj
  metadata :: Metadata

record CandidateAction =
  action :: string
  params :: jsval
  justification :: string

record ReasonOutput =
  proposedActions :: "CandidateAction list"
  reasoning :: string

record CritiqueOutput =
  confidence :: jsnum
  limitations :: "string list"
  uncertainties :: "string list"
  approvedActions :: "CandidateAction list"
  rejectedActions :: "CandidateAction list option"
  explanation :: string

record UncertaintyFlag =
  uncertain :: bool
  flag_reason :: string

record EthicalVerdict =
  approved :: bool
  reason :: string

record TestResult =
  passes :: bool
  test_reason :: string

record CritiqueState =
  st_approved :: "CandidateAction list"
  st_rejected :: "CandidateAction list"
  st_limitations :: "string list"
  st_uncertainties :: "string list"
  st_explanation :: string

section \<open>layers.ts: the helper functions\<close>

text \<open>
  \<^verbatim>\<open>detectDataType\<close>: the first shape that matches. The reads fail on
  \<^verbatim>\<open>null\<close> and \<^verbatim>\<open>undefined\<close>, which the function does not guard against.
\<close>

definition detectDataType :: "jsval \<Rightarrow> obj option \<Rightarrow> string option" where
  "detectDataType data context = do {
     hash \<leftarrow> js_get data ''hash'';
     sender \<leftarrow> js_get data ''from'';
     recipient \<leftarrow> js_get data ''to'';
     if js_truthy (js_and (js_and hash sender) recipient) then Some ''transaction''
     else do {
       content \<leftarrow> js_get data ''content'';
       message \<leftarrow> js_get data ''message'';
       if js_truthy (js_or content message) then Some ''message''
       else do {
         event \<leftarrow> js_get data ''event'';
         if js_truthy event then Some ''event''
         else do {
           inputType \<leftarrow> js_get data ''inputType'';
           if inputType = JStr ''user'' then Some ''userInput'' else Some ''unknown''
         }
       }
     }
   }"

definition Object_prototype_members :: "string list" where
  "Object_prototype_members =
     [''constructor'', ''__defineGetter__'', ''__defineSetter__'', ''hasOwnProperty'',
      ''__lookupGetter__'', ''__lookupSetter__'', ''isPrototypeOf'',
      ''propertyIsEnumerable'', ''toString'', ''valueOf'', ''__proto__'',
      ''toLocaleString'']"

definition chainMap :: "string \<Rightarrow> source option" where
  "chainMap k =
     (case map_of [(''1'', ''Ethereum''), (''42161'', ''Arbitrum''), (''10'', ''Optimism''),
                   (''56'', ''BSC'')] k of
        Some n \<Rightarrow> Some (Src (JStr n))
      | None \<Rightarrow>
          if k \<in> set Object_prototype_members then Some (ObjectPrototypeMember k) else None)"

definition detectSource :: "runtime \<Rightarrow> jsval \<Rightarrow> source option" where
  "detectSource rt data = do {
     chainId \<leftarrow> js_get data ''chainId'';
     if js_truthy chainId then
       Some (case chainMap (ToString rt chainId) of
               Some s \<Rightarrow> s
             | None \<Rightarrow> Src (JStr (''Chain-'' @ ToString rt chainId)))
     else do {
       s \<leftarrow> js_get data ''source'';
       Some (Src (js_or s (JStr ''unknown'')))
     }
   }"

definition structureData :: "runtime \<Rightarrow> jsval \<Rightarrow> string \<Rightarrow> obj option \<Rightarrow> obj option" where
  "structureData rt data ty context =
     (if ty = ''transaction'' then do {
        hash \<leftarrow> js_get data ''hash'';
        sender \<leftarrow> js_get data ''from'';
        recipient \<leftarrow> js_get data ''to'';
        val \<leftarrow> js_get data ''value'';
        calldata \<leftarrow> js_get data ''data'';
        gas \<leftarrow> js_get data ''gas'';
        chainId \<leftarrow> js_get data ''chainId'';
        Some [(''hash'', hash),
              (''from'', sender),
              (''to'', recipient),
              (''value'', js_or val (JNum (Fin 0))),
              (''data'', js_or calldata (JStr [])),
              (''gas'', gas),
              (''chainId'', chainId),
              (''previousTxs'', js_or (context_get context ''previousTransactions'') (JArr []))]
      }
      else if ty = ''message'' then do {
        content \<leftarrow> js_get data ''content'';
        message \<leftarrow> js_get data ''message'';
        sender \<leftarrow> js_get data ''sender'';
        sender' \<leftarrow> js_get data ''from'';
        ts \<leftarrow> js_get data ''timestamp'';
        Some [(''content'', js_or content message),
              (''sender'', js_or sender sender'),
              (''timestamp'', js_or ts (JNum (Fin (Date_now rt)))),
              (''conversationHistory'',
                 js_or (context_get context ''conversationHistory'') (JArr []))]
      }
      else if ty = ''event'' then do {
        event \<leftarrow> js_get data ''event'';
        parameters \<leftarrow> js_get data ''parameters'';
        blockNumber \<leftarrow> js_get data ''blockNumber'';
        transactionHash \<leftarrow> js_get data ''transactionHash'';
        Some [(''eventName'', event),
              (''parameters'', js_or parameters (JObj [])),
              (''blockNumber'', blockNumber),
              (''transactionHash'', transactionHash)]
      }
      else if ty = ''userInput'' then do {
        inp \<leftarrow> js_get data ''input'';
        inputType \<leftarrow> js_get data ''inputType'';
        ts \<leftarrow> js_get data ''timestamp'';
        Some [(''input'', inp),
              (''type'', inputType),
              (''timestamp'', js_or ts (JNum (Fin (Date_now rt))))]
      }
      else Some (spread data))"

definition categorizeTransaction :: "runtime \<Rightarrow> obj \<Rightarrow> string option" where
  "categorizeTransaction rt tx =
     (if \<not> js_truthy (obj_get tx ''to'') then Some ''contract-deployment''
      else if js_truthy (obj_get tx ''data'')
              \<and> js_gt rt (js_get_opt (obj_get tx ''data'') ''length'') 2 then do {
        signature \<leftarrow> js_slice_0_10 (obj_get tx ''data'');
        if signature = JStr ''0xa9059cbb'' then Some ''ERC20-transfer''
        else if signature = JStr ''0x23b872dd'' then Some ''ERC20-transferFrom''
        else Some ''unknown-contract-interaction''
      }
      else Some ''value-transfer'')"

definition assessRisk :: "runtime \<Rightarrow> obj \<Rightarrow> string" where
  "assessRisk rt tx =
     (if js_gt rt (obj_get tx ''value'') 1000
         \<or> \<not> js_truthy (obj_get tx ''to'')
         \<or> js_gt rt (js_get_opt (obj_get tx ''data'') ''length'') 1000
      then ''high'' else ''low'')"

definition detectIntent :: "runtime \<Rightarrow> obj \<Rightarrow> string option" where
  "detectIntent rt message = do {
     content \<leftarrow> js_toLowerCase rt (obj_get message ''content'');
     if str_includes content ''buy'' \<or> str_includes content ''purchase''
       then Some ''purchase-intent''
     else if str_includes content ''sell'' \<or> str_includes content ''trade''
       then Some ''sell-intent''
     else if str_includes content ''help'' \<or> str_includes content ''?''
       then Some ''question''
     else if str_includes content ''hello'' \<or> str_includes content ''hi''
       then Some ''greeting''
     else Some ''statement''
   }"

definition analyzeSentiment :: "runtime \<Rightarrow> obj \<Rightarrow> string option" where
  "analyzeSentiment rt message = do {
     content \<leftarrow> js_toLowerCase rt (obj_get message ''content'');
     let positive = length (filter (\<lambda>word. str_includes content word)
                      [''good'', ''great'', ''excellent'', ''thanks'', ''happy'']);
     let negative = length (filter (\<lambda>word. str_includes content word)
                      [''bad'', ''poor'', ''terrible'', ''fail'', ''sad'']);
     Some (if positive > negative then ''positive''
           else if negative > positive then ''negative'' else ''neutral'')
   }"

definition categorizeEvent :: "obj \<Rightarrow> string" where
  "categorizeEvent event =
     (if obj_get event ''eventName'' = JStr ''Transfer'' then ''token-transfer''
      else if obj_get event ''eventName'' = JStr ''Approval'' then ''token-approval''
      else ''generic-event'')"

definition generateContextualResponse :: "obj \<Rightarrow> string" where
  "generateContextualResponse data =
     (if obj_get data ''intent'' = JStr ''greeting''
        then ''Hello! How can I assist you with blockchain or AI tasks?''
      else if obj_get data ''intent'' = JStr ''question''
        then ''Let me look that up for you. I'll respond shortly.''
      else if obj_get data ''intent'' = JStr ''purchase-intent''
        then ''I can assist with blockchain transactions. Please provide more details.''
      else ''Thank you for your message. I'll process it accordingly.'')"

text \<open>
  \<^verbatim>\<open>checkEpistemicBoundaries\<close> of layers.ts (the Epistemic Checker, on one action);
  the function of the same name in pipeline.ts is the Boundary Decider below.
\<close>

definition checkEpistemicBoundaries_action ::
    "runtime \<Rightarrow> CandidateAction \<Rightarrow> UncertaintyFlag option" where
  "checkEpistemicBoundaries_action rt a = do {
     highValue \<leftarrow>
       (if action a = ''executeTransaction''
        then do { v \<leftarrow> js_get (params a) ''value''; Some (js_gt rt v 1000) }
        else Some False);
     if highValue then
       Some \<lparr>uncertain = True,
             flag_reason = ''High-value transactions exceed confidence boundaries''\<rparr>
     else do {
       longResponse \<leftarrow>
         (if action a = ''respondToMessage''
          then do { c \<leftarrow> js_get (params a) ''content'';
                    n \<leftarrow> js_get c ''length'';
                    Some (js_gt rt n 500) }
          else Some False);
       if longResponse then
         Some \<lparr>uncertain = True,
               flag_reason = ''Long responses may exceed knowledge boundaries''\<rparr>
       else Some \<lparr>uncertain = False, flag_reason = []\<rparr>
     }
   }"

text \<open>\<^verbatim>\<open>action.action === "respondToMessage" && action.params.content.includes(word)\<close>\<close>

definition respondsWith :: "CandidateAction \<Rightarrow> string \<Rightarrow> bool option" where
  "respondsWith a word =
     (if action a = ''respondToMessage''
      then do { c \<leftarrow> js_get (params a) ''content''; js_includes c word }
      else Some False)"

definition universalizabilityTest :: "runtime \<Rightarrow> CandidateAction \<Rightarrow> TestResult option" where
  "universalizabilityTest rt a = do {
     negative \<leftarrow>
       (if action a = ''executeTransaction''
        then do { v \<leftarrow> js_get (params a) ''value''; Some (js_lt rt v 0) }
        else Some False);
     if negative then
       Some \<lparr>passes = False,
             test_reason =
               ''A system where transactions take value without consent would collapse''\<rparr>
     else do {
       misleads \<leftarrow> respondsWith a ''mislead'';
       if misleads then
         Some \<lparr>passes = False,
               test_reason =
                 ''A system where AI agents mislead users cannot be universalized''\<rparr>
       else Some \<lparr>passes = True, test_reason = ''Action can be universalized''\<rparr>
     }
   }"

definition humanityAsEndTest :: "CandidateAction \<Rightarrow> TestResult option" where
  "humanityAsEndTest a = do {
     forced \<leftarrow>
       (if action a = ''executeTransaction''
        then do { f \<leftarrow> js_get (params a) ''force''; Some (js_truthy f) }
        else Some False);
     if forced then
       Some \<lparr>passes = False,
             test_reason = ''Forcing transactions without consent treats users as means''\<rparr>
     else do {
       manipulates \<leftarrow> respondsWith a ''manipulate'';
       if manipulates then
         Some \<lparr>passes = False,
               test_reason = ''Manipulative responses treat users as means to an end''\<rparr>
       else Some \<lparr>passes = True, test_reason = ''Action respects humanity as an end''\<rparr>
     }
   }"

definition kingdomOfEndsTest :: "CandidateAction \<Rightarrow> TestResult option" where
  "kingdomOfEndsTest a = do {
     scam \<leftarrow>
       (if action a = ''executeTransaction''
        then do { t \<leftarrow> js_get (params a) ''to''; Some (t = JStr ''0xknownScamAddress'') }
        else Some False);
     if scam then
       Some \<lparr>passes = False,
             test_reason = ''Supporting scams is incompatible with a moral community''\<rparr>
     else do {
       hateful \<leftarrow> respondsWith a ''hate speech'';
       if hateful then
         Some \<lparr>passes = False,
               test_reason = ''Hate speech is incompatible with a kingdom of ends''\<rparr>
       else Some \<lparr>passes = True,
                  test_reason = ''Action is compatible with a moral community''\<rparr>
     }
   }"

definition categoricalImperative :: "runtime \<Rightarrow> CandidateAction \<Rightarrow> EthicalVerdict option" where
  "categoricalImperative rt a = do {
     universalTest \<leftarrow> universalizabilityTest rt a;
     if \<not> passes universalTest then
       Some \<lparr>approved = False,
             reason = ''Fails universalizability: '' @ test_reason universalTest\<rparr>
     else do {
       humanityTest \<leftarrow> humanityAsEndTest a;
       if \<not> passes humanityTest then
         Some \<lparr>approved = False,
               reason = ''Fails humanity as end: '' @ test_reason humanityTest\<rparr>
       else do {
         kingdomTest \<leftarrow> kingdomOfEndsTest a;
         if \<not> passes kingdomTest then
           Some \<lparr>approved = False,
                 reason = ''Fails kingdom of ends: '' @ test_reason kingdomTest\<rparr>
         else
           Some \<lparr>approved = True,
                 reason =
                   ''Action passes all three formulations of the categorical imperative''\<rparr>
       }
     }
   }"

text \<open>
  \<^verbatim>\<open>calculateConfidence\<close>: \<open>highValuePenalty\<close> is its \<^verbatim>\<open>approved.forEach\<close>,
  carrying the running confidence.
\<close>

definition isHighValue :: "runtime \<Rightarrow> CandidateAction \<Rightarrow> bool option" where
  "isHighValue rt a =
     (if action a = ''executeTransaction''
      then do { v \<leftarrow> js_get (params a) ''value''; Some (js_gt rt v 1000) }
      else Some False)"

fun highValuePenalty :: "runtime \<Rightarrow> CandidateAction list \<Rightarrow> rat \<Rightarrow> rat option" where
  "highValuePenalty rt [] c = Some c"
| "highValuePenalty rt (a # as) c = do {
     hv \<leftarrow> isHighValue rt a;
     highValuePenalty rt as (if hv then c - 1 / 10 else c)
   }"

definition calculateConfidence ::
    "runtime \<Rightarrow> CandidateAction list \<Rightarrow> CandidateAction list \<Rightarrow> string list \<Rightarrow> rat option" where
  "calculateConfidence rt approvedL rejectedL uncertaintiesL = do {
     let c0 = 1;
     let c1 = (if length rejectedL > 0 then c0 - 2 / 10 * of_nat (length rejectedL) else c0);
     let c2 = (if length uncertaintiesL > 0
               then c1 - 1 / 10 * of_nat (length uncertaintiesL) else c1);
     c3 \<leftarrow> highValuePenalty rt approvedL c2;
     Some (max 0 c3)
   }"

section \<open>layers.ts: the four layers\<close>

definition sensibilityLayer :: "runtime \<Rightarrow> SensibilityInput \<Rightarrow> UnderstandingOutput option" where
  "sensibilityLayer rt input = do {
     dt \<leftarrow> detectDataType (rawData input) (inputContext input);
     src \<leftarrow> detectSource rt (rawData input);
     cd \<leftarrow> structureData rt (rawData input) dt (inputContext input);
     Some \<lparr>categorizedData = cd,
           metadata = \<lparr>dataType = dt, source = src, timestamp = Fin (Date_now rt)\<rparr>\<rparr>
   }"

definition understandingLayer ::
    "runtime \<Rightarrow> UnderstandingOutput \<Rightarrow> UnderstandingOutput option" where
  "understandingLayer rt input =
     (let enrichedData = categorizedData input in
      if dataType (metadata input) = ''transaction'' then do {
        transactionType \<leftarrow> categorizeTransaction rt (categorizedData input);
        let enrichedData = obj_set enrichedData ''transactionType'' (JStr transactionType);
        let enrichedData =
              obj_set enrichedData ''risk'' (JStr (assessRisk rt (categorizedData input)));
        Some (input\<lparr>categorizedData := enrichedData\<rparr>)
      }
      else if dataType (metadata input) = ''message'' then do {
        intent \<leftarrow> detectIntent rt (categorizedData input);
        let enrichedData = obj_set enrichedData ''intent'' (JStr intent);
        sentiment \<leftarrow> analyzeSentiment rt (categorizedData input);
        let enrichedData = obj_set enrichedData ''sentiment'' (JStr sentiment);
        Some (input\<lparr>categorizedData := enrichedData\<rparr>)
      }
      else if dataType (metadata input) = ''event'' then
        Some (input\<lparr>categorizedData :=
                obj_set enrichedData ''eventCategory''
                  (JStr (categorizeEvent (categorizedData input)))\<rparr>)
      else Some (input\<lparr>categorizedData := enrichedData\<rparr>))"

definition reasonLayer :: "runtime \<Rightarrow> UnderstandingOutput \<Rightarrow> ReasonOutput" where
  "reasonLayer rt input =
     (let cd = categorizedData input in
      if dataType (metadata input) = ''transaction'' then
        \<lparr>proposedActions =
           [\<lparr>action = ''verifyRecipient'',
             params = JObj [(''address'', obj_get cd ''to'')],
             justification = ''Ensure recipient is valid and not flagged for scams''\<rparr>]
           @ (if js_gt rt (obj_get cd ''value'') 0 then
                [\<lparr>action = ''executeTransaction'',
                  params = JObj [(''to'', obj_get cd ''to''),
                                 (''value'', obj_get cd ''value''),
                                 (''data'', obj_get cd ''data'')],
                  justification = ''Transaction parameters validated, value is positive''\<rparr>]
              else [])
           @ [\<lparr>action = ''checkGasPrice'',
               params = JObj [(''chainId'', obj_get cd ''chainId'')],
               justification = ''Optimize transaction cost based on current gas prices''\<rparr>]
           @ (if obj_get cd ''risk'' = JStr ''high'' then
                [\<lparr>action = ''monitorTransaction'',
                  params = JObj [(''txHash'', obj_get cd ''hash'')],
                  justification = ''High-risk transaction requires additional monitoring''\<rparr>]
              else []),
         reasoning =
           ''Analyzing '' @ ToString rt (obj_get cd ''transactionType'')
           @ '' transaction from '' @ ToString rt (obj_get cd ''from'')
           @ '' to '' @ ToString rt (obj_get cd ''to'')\<rparr>
      else if dataType (metadata input) = ''message'' then
        \<lparr>proposedActions =
           [\<lparr>action = ''respondToMessage'',
             params = JObj [(''content'', JStr (generateContextualResponse cd)),
                            (''context'', JObj cd)],
             justification = ''Generated response based on intent, sentiment, and history''\<rparr>]
           @ (if obj_get cd ''intent'' = JStr ''question'' then
                [\<lparr>action = ''searchForAnswer'',
                  params = JObj [(''query'', obj_get cd ''content'')],
                  justification = ''Perform search to provide accurate response''\<rparr>]
              else []),
         reasoning =
           ''Processing message with intent: '' @ ToString rt (obj_get cd ''intent'')
           @ '' and sentiment: '' @ ToString rt (obj_get cd ''sentiment'')\<rparr>
      else if dataType (metadata input) = ''event'' then
        \<lparr>proposedActions =
           [\<lparr>action = ''logEvent'',
             params = JObj [(''event'', JObj cd)],
             justification = ''Record event for future reference''\<rparr>],
         reasoning = ''Processing event: '' @ ToString rt (obj_get cd ''eventName'')\<rparr>
      else \<lparr>proposedActions = [], reasoning = []\<rparr>)"

text \<open>The \<^verbatim>\<open>for ... of\<close> loop of \<^verbatim>\<open>critiqueLayer\<close>, on its five accumulators.\<close>

fun critiqueLoop ::
    "runtime \<Rightarrow> CandidateAction list \<Rightarrow> CritiqueState \<Rightarrow> CritiqueState option" where
  "critiqueLoop rt [] st = Some st"
| "critiqueLoop rt (a # as) st = do {
     ethicalCheck \<leftarrow> categoricalImperative rt a;
     let st1 =
       (if approved ethicalCheck then
          st\<lparr>st_approved := st_approved st @ [a],
             st_explanation := st_explanation st @ newline @ ''Approved: '' @ action a
                                 @ '' - '' @ reason ethicalCheck\<rparr>
        else
          st\<lparr>st_rejected := st_rejected st @ [a],
             st_explanation := st_explanation st @ newline @ ''Rejected: '' @ action a
                                 @ '' - '' @ reason ethicalCheck,
             st_limitations := st_limitations st
                                 @ [''Ethical constraint: '' @ reason ethicalCheck]\<rparr>);
     boundaryCheck \<leftarrow> checkEpistemicBoundaries_action rt a;
     let st2 =
       (if uncertain boundaryCheck then
          st1\<lparr>st_uncertainties := st_uncertainties st1 @ [flag_reason boundaryCheck]\<rparr>
        else st1);
     critiqueLoop rt as st2
   }"

definition critiqueLayer :: "runtime \<Rightarrow> ReasonOutput \<Rightarrow> CritiqueOutput option" where
  "critiqueLayer rt input = do {
     st \<leftarrow> critiqueLoop rt (proposedActions input)
             \<lparr>st_approved = [], st_rejected = [], st_limitations = [],
              st_uncertainties = [], st_explanation = []\<rparr>;
     c \<leftarrow> calculateConfidence rt (st_approved st) (st_rejected st) (st_uncertainties st);
     Some \<lparr>confidence = Fin c,
           limitations = st_limitations st,
           uncertainties = st_uncertainties st,
           approvedActions = st_approved st,
           rejectedActions = Some (st_rejected st),
           explanation = reasoning input @ newline @ st_explanation st @ newline
                           @ ''Confidence: '' @ NumberToString rt (Fin c)\<rparr>
   }"

section \<open>pipeline.ts\<close>

text \<open>
  \<^verbatim>\<open>carPipeline\<close> with \<^verbatim>\<open>debug\<close> off (its default): the four layers in a
  \<^verbatim>\<open>try\<close> block whose \<^verbatim>\<open>catch\<close> rethrows. The options change nothing else, and the
  processing-time check only logs.
\<close>

definition carPipeline :: "runtime \<Rightarrow> jsval \<Rightarrow> obj option \<Rightarrow> error + CritiqueOutput" where
  "carPipeline rt rawInput context =
     (case do {
             sensibilityOutput \<leftarrow>
               sensibilityLayer rt \<lparr>rawData = rawInput, inputContext = context\<rparr>;
             understandingOutput \<leftarrow> understandingLayer rt sensibilityOutput;
             critiqueLayer rt (reasonLayer rt understandingOutput)
           } of
        None \<Rightarrow> Inl PipelineFailed
      | Some critiqueOutput \<Rightarrow> Inr critiqueOutput)"

record DeferralDecision =
  shouldDefer :: bool
  defer_reason :: string

text \<open>The Boundary Decider; \<open>None\<close> is the omitted threshold, which defaults to 0.7.\<close>

definition checkEpistemicBoundaries ::
    "runtime \<Rightarrow> CritiqueOutput \<Rightarrow> jsnum option \<Rightarrow> DeferralDecision" where
  "checkEpistemicBoundaries rt output threshold =
     (let confidenceThreshold = (case threshold of None \<Rightarrow> Fin (7 / 10) | Some t \<Rightarrow> t) in
      if num_lt (confidence output) confidenceThreshold then
        \<lparr>shouldDefer = True,
         defer_reason = ''Low confidence ('' @ toFixed rt (confidence output) 2
                          @ '') below threshold of ''
                          @ NumberToString rt confidenceThreshold\<rparr>
      else if length (limitations output) > 0 then
        \<lparr>shouldDefer = True,
         defer_reason = ''Limitations detected: '' @ join '', '' (limitations output)\<rparr>
      else if length (uncertainties output) > 0 then
        \<lparr>shouldDefer = True,
         defer_reason = ''Uncertainties present: '' @ join '', '' (uncertainties output)\<rparr>
      else \<lparr>shouldDefer = False, defer_reason = ''Within epistemic boundaries''\<rparr>)"

text \<open>\<^verbatim>\<open>String.prototype.trim\<close> on the 8-bit characters.\<close>

definition is_whitespace :: "char \<Rightarrow> bool" where
  "is_whitespace c =
     (c \<in> set [CHR 0x09, CHR 0x0A, CHR 0x0B, CHR 0x0C, CHR 0x0D, CHR 0x20, CHR 0xA0])"

definition trim :: "string \<Rightarrow> string" where
  "trim s = rev (dropWhile is_whitespace (rev (dropWhile is_whitespace s)))"

definition generateExplanation :: "runtime \<Rightarrow> CritiqueOutput \<Rightarrow> string" where
  "generateExplanation rt output =
     (let approvedActionsList =
            (let l = join newline
                       (map (\<lambda>a. ''- '' @ action a @ '': '' @ justification a)
                          (approvedActions output))
             in if l \<noteq> [] then l else ''None'');
          rejectedActionsList =
            (case rejectedActions output of
               Some rs \<Rightarrow>
                 join newline
                   (map (\<lambda>a. ''- '' @ action a @ '': Rejected due to ethical constraints'') rs)
             | None \<Rightarrow> ''None'')
      in trim
           (newline @ ''**Decision Analysis**'' @ newline
            @ ''- **Confidence Level**: '' @ toFixed rt (confidence output) 2 @ newline
            @ ''- **Approved Actions**:'' @ newline
            @ approvedActionsList @ newline
            @ newline
            @ ''- **Rejected Actions**:'' @ newline
            @ rejectedActionsList @ newline
            @ newline
            @ ''**Reasoning**:'' @ newline
            @ explanation output @ newline
            @ newline
            @ (if length (limitations output) > 0
               then ''**Limitations**:'' @ newline @ ''- ''
                      @ join (newline @ ''- '') (limitations output)
               else [])
            @ newline
            @ (if length (uncertainties output) > 0
               then ''**Uncertainties**:'' @ newline @ ''- ''
                      @ join (newline @ ''- '') (uncertainties output)
               else [])
            @ newline @ ''  ''))"

section \<open>The blockchain action evaluator\<close>

text \<open>
  \<^verbatim>\<open>BlockchainAction\<close> has the fields of a candidate action (its justification is
  optional and never read). \<^verbatim>\<open>CategoricalImperativeResult\<close> is the verdict type
  \<open>EthicalVerdict\<close>.
\<close>

type_synonym BlockchainAction = CandidateAction

datatype AddressCategory = safe_address | suspicious | malicious | unknown_address

record BlockchainAddress =
  address :: jsval
  category :: AddressCategory
  address_reason :: string

record ContractSafetyResult =
  safe :: bool
  safety_reason :: string
  risks :: "string list option"

record ParamCheck =
  valid :: bool
  valid_reason :: string

definition knownMaliciousAddresses :: "string list" where
  "knownMaliciousAddresses = [''0xknownScamAddress'', ''0xanotherScam'']"

definition checkAddress :: "jsval \<Rightarrow> BlockchainAddress option" where
  "checkAddress addr =
     (if addr \<in> set (map JStr knownMaliciousAddresses) then
        Some \<lparr>address = addr, category = malicious,
              address_reason =
                ''Address is known to be associated with scams or malicious activities.''\<rparr>
      else do {
        zeros \<leftarrow> js_startsWith addr ''0x000'';
        if zeros then
          Some \<lparr>address = addr, category = suspicious,
                address_reason = ''Address matches suspicious pattern (starts with 0x000).''\<rparr>
        else
          Some \<lparr>address = addr, category = unknown_address,
                address_reason = ''No information available for this address.''\<rparr>
      })"

definition checkContractSafety :: "jsval \<Rightarrow> jsval \<Rightarrow> ContractSafetyResult option" where
  "checkContractSafety contractAddress calldata = do {
     trusted \<leftarrow> js_startsWith contractAddress ''0xsafe'';
     if trusted then
       Some \<lparr>safe = True, safety_reason = ''Contract is verified and safe.'', risks = None\<rparr>
     else do {
       destructs \<leftarrow> js_includes calldata ''selfdestruct'';
       if destructs then
         Some \<lparr>safe = False,
               safety_reason =
                 ''Contract interaction includes dangerous operations (selfdestruct).'',
               risks = Some [''Potential loss of funds'']\<rparr>
       else
         Some \<lparr>safe = False,
               safety_reason = ''Contract safety could not be verified.'',
               risks = Some [''Unknown contract behavior'']\<rparr>
     }
   }"

definition MAX_TRANSACTION_VALUE :: rat where
  "MAX_TRANSACTION_VALUE = 1000"

definition checkTransactionValue :: "runtime \<Rightarrow> jsval \<Rightarrow> jsval \<Rightarrow> EthicalVerdict" where
  "checkTransactionValue rt val token =
     (if js_gt rt val MAX_TRANSACTION_VALUE then
        \<lparr>approved = False,
         reason = ''Transaction value exceeds maximum allowed limit of ''
                    @ NumberToString rt (Fin MAX_TRANSACTION_VALUE) @ '' ''
                    @ ToString rt (js_or token (JStr ''ETH''))\<rparr>
      else \<lparr>approved = True, reason = ''Transaction value within acceptable limits''\<rparr>)"

definition blockchainActions :: "string list" where
  "blockchainActions =
     [''executeTransaction'', ''deployContract'', ''callContract'', ''signMessage'',
      ''approveToken'', ''transferToken'']"

definition isBlockchainAction :: "BlockchainAction \<Rightarrow> bool" where
  "isBlockchainAction a = (action a \<in> set blockchainActions)"

text \<open>\<^verbatim>\<open>!action.params.k\<close>\<close>

definition param_missing :: "BlockchainAction \<Rightarrow> string \<Rightarrow> bool option" where
  "param_missing a k = do { v \<leftarrow> js_get (params a) k; Some (\<not> js_truthy v) }"

definition validateActionParams :: "BlockchainAction \<Rightarrow> ParamCheck option" where
  "validateActionParams a =
     (let ok = Some \<lparr>valid = True, valid_reason = ''All required parameters are present''\<rparr> in
      if action a = ''executeTransaction'' then do {
        noTo \<leftarrow> param_missing a ''to'';
        if noTo then Some \<lparr>valid = False, valid_reason = ''Missing recipient address''\<rparr>
        else ok
      }
      else if action a = ''deployContract'' then do {
        noBytecode \<leftarrow> param_missing a ''bytecode'';
        if noBytecode then Some \<lparr>valid = False, valid_reason = ''Missing contract bytecode''\<rparr>
        else ok
      }
      else if action a = ''callContract'' then do {
        noTo \<leftarrow> param_missing a ''to'';
        noData \<leftarrow> param_missing a ''data'';
        if noTo \<or> noData then
          Some \<lparr>valid = False, valid_reason = ''Missing contract address or call data''\<rparr>
        else ok
      }
      else if action a = ''signMessage'' then do {
        noMessage \<leftarrow> param_missing a ''message'';
        if noMessage then Some \<lparr>valid = False, valid_reason = ''Missing message to sign''\<rparr>
        else ok
      }
      else if action a = ''approveToken'' then do {
        noToken \<leftarrow> param_missing a ''token'';
        noSpender \<leftarrow> param_missing a ''spender'';
        noAmount \<leftarrow> param_missing a ''amount'';
        if noToken \<or> noSpender \<or> noAmount then
          Some \<lparr>valid = False,
                valid_reason =
                  ''Missing token approval parameters (token, spender, or amount)''\<rparr>
        else ok
      }
      else if action a = ''transferToken'' then do {
        noToken \<leftarrow> param_missing a ''token'';
        noTo \<leftarrow> param_missing a ''to'';
        noAmount \<leftarrow> param_missing a ''amount'';
        if noToken \<or> noTo \<or> noAmount then
          Some \<lparr>valid = False,
                valid_reason =
                  ''Missing token transfer parameters (token, recipient, or amount)''\<rparr>
        else ok
      }
      else Some \<lparr>valid = False, valid_reason = ''Unknown blockchain action''\<rparr>)"

text \<open>
  \<^verbatim>\<open>evaluateBlockchainAction\<close> returns from the middle of its body; the model names
  the remainder of the body after each check: \<open>valueCheckFrom\<close> is the function from
  \<^verbatim>\<open>// Check transaction value if present\<close> on, \<open>contractCheckFrom\<close> from
  \<^verbatim>\<open>// Check contract safety for interactions with data\<close> on, and
  \<open>addressCheckFrom\<close> from \<^verbatim>\<open>// Check recipient address if present\<close> on.
\<close>

definition valueCheckFrom :: "runtime \<Rightarrow> BlockchainAction \<Rightarrow> EthicalVerdict option" where
  "valueCheckFrom rt a = do {
     val \<leftarrow> js_get (params a) ''value'';
     token \<leftarrow> js_get (params a) ''token'';
     if js_truthy val \<and> \<not> approved (checkTransactionValue rt val token) then
       Some (checkTransactionValue rt val token)
     else Some \<lparr>approved = True, reason = ''Blockchain action passed all ethical checks''\<rparr>
   }"

definition contractCheckFrom :: "runtime \<Rightarrow> BlockchainAction \<Rightarrow> EthicalVerdict option" where
  "contractCheckFrom rt a = do {
     calldata \<leftarrow> js_get (params a) ''data'';
     if js_truthy calldata \<and> js_gt rt (js_get_opt calldata ''length'') 2 then do {
       recipient \<leftarrow> js_get (params a) ''to'';
       contractCheck \<leftarrow> checkContractSafety recipient calldata;
       if \<not> safe contractCheck then
         Some \<lparr>approved = False,
               reason = ''Unsafe contract interaction: '' @ safety_reason contractCheck\<rparr>
       else valueCheckFrom rt a
     }
     else valueCheckFrom rt a
   }"

definition addressCheckFrom :: "runtime \<Rightarrow> BlockchainAction \<Rightarrow> EthicalVerdict option" where
  "addressCheckFrom rt a = do {
     recipient \<leftarrow> js_get (params a) ''to'';
     if js_truthy recipient then do {
       addressCheck \<leftarrow> checkAddress recipient;
       if category addressCheck = malicious then
         Some \<lparr>approved = False,
               reason = ''Malicious recipient address: '' @ address_reason addressCheck\<rparr>
       else if category addressCheck = suspicious then
         Some \<lparr>approved = False,
               reason = ''Suspicious recipient address: '' @ address_reason addressCheck\<rparr>
       else contractCheckFrom rt a
     }
     else contractCheckFrom rt a
   }"

definition evaluateBlockchainAction :: "runtime \<Rightarrow> BlockchainAction \<Rightarrow> EthicalVerdict option" where
  "evaluateBlockchainAction rt a =
     (if \<not> isBlockchainAction a then
        Some \<lparr>approved = True, reason = ''Not a blockchain action''\<rparr>
      else do {
        validParams \<leftarrow> validateActionParams a;
        if \<not> valid validParams then
          Some \<lparr>approved = False, reason = valid_reason validParams\<rparr>
        else addressCheckFrom rt a
      })"

section \<open>A sample runtime\<close>

text \<open>
  A runtime to evaluate the model on concrete inputs: the clock reads a fixed instant,
  finite numbers are printed in plain decimal notation (no exponent) and parsed from
  unsigned decimal integers, and \<open>toLowerCase\<close> maps the ASCII capitals. The theorems
  are stated for every runtime; this one instantiates them.
\<close>

fun frac_digits :: "nat \<Rightarrow> rat \<Rightarrow> string" where
  "frac_digits 0 r = []"
| "frac_digits (Suc fuel) r =
     (if r = 0 then []
      else (''0123456789'' ! nat \<lfloor>r * 10\<rfloor>)
             # frac_digits fuel (r * 10 - of_int \<lfloor>r * 10\<rfloor>))"

definition show_rat :: "rat \<Rightarrow> string" where
  "show_rat r =
     (let a = \<bar>r\<bar>; whole = nat \<lfloor>a\<rfloor>; frac = a - of_int \<lfloor>a\<rfloor> in
      (if r < 0 then ''-'' else []) @ show_nat whole
        @ (if frac = 0 then [] else ''.'' @ frac_digits 20 frac))"

definition sample_NumberToString :: "jsnum \<Rightarrow> string" where
  "sample_NumberToString n =
     (case n of NaN \<Rightarrow> ''NaN'' | PosInf \<Rightarrow> ''Infinity'' | NegInf \<Rightarrow> ''-Infinity''
      | Fin r \<Rightarrow> show_rat r)"

definition pad_left :: "nat \<Rightarrow> string \<Rightarrow> string" where
  "pad_left n s = replicate (n - length s) CHR ''0'' @ s"

definition sample_toFixed :: "jsnum \<Rightarrow> nat \<Rightarrow> string" where
  "sample_toFixed n d =
     (case n of NaN \<Rightarrow> ''NaN'' | PosInf \<Rightarrow> ''Infinity'' | NegInf \<Rightarrow> ''-Infinity''
      | Fin r \<Rightarrow>
          (let m = nat \<lfloor>\<bar>r\<bar> * 10 ^ d + 1 / 2\<rfloor> in
           (if r < 0 \<and> m \<noteq> 0 then ''-'' else []) @ show_nat (m div 10 ^ d)
             @ (if d = 0 then [] else ''.'' @ pad_left d (show_nat (m mod 10 ^ d)))))"

fun digits_value :: "string \<Rightarrow> nat \<Rightarrow> nat option" where
  "digits_value [] acc = Some acc"
| "digits_value (c # cs) acc =
     (if 48 \<le> (of_char c :: nat) \<and> (of_char c :: nat) \<le> 57
      then digits_value cs (10 * acc + (of_char c - 48))
      else None)"

definition sample_StringToNumber :: "string \<Rightarrow> jsnum" where
  "sample_StringToNumber s =
     (case digits_value s 0 of Some n \<Rightarrow> Fin (of_nat n) | None \<Rightarrow> NaN)"

definition sample_toLowerCase :: "string \<Rightarrow> string" where
  "sample_toLowerCase s =
     map (\<lambda>c. if 65 \<le> (of_char c :: nat) \<and> (of_char c :: nat) \<le> 90
               then char_of (of_char c + 32 :: nat) else c) s"

definition sample_runtime :: runtime where
  "sample_runtime =
     \<lparr>Date_now = 1700000000000,
      StringToNumber = sample_StringToNumber,
      NumberToString = sample_NumberToString,
      toFixed = sample_toFixed,
      toLowerCase = sample_toLowerCase\<rparr>"

section \<open>Notions of the specification, and sample inputs\<close>

text \<open>
  The verdicts of the Ethical Evaluator and of the Epistemic Checker on one action, as
  predicates (false where the check raises), and the condition under which
  \<^verbatim>\<open>calculateConfidence\<close> charges an approved action.
\<close>

definition ethicallyApproved :: "runtime \<Rightarrow> CandidateAction \<Rightarrow> bool" where
  "ethicallyApproved rt a =
     (case categoricalImperative rt a of Some v \<Rightarrow> approved v | None \<Rightarrow> False)"

definition flaggedUncertain :: "runtime \<Rightarrow> CandidateAction \<Rightarrow> bool" where
  "flaggedUncertain rt a =
     (case checkEpistemicBoundaries_action rt a of Some f \<Rightarrow> uncertain f | None \<Rightarrow> False)"

definition exceedsCeiling :: "runtime \<Rightarrow> CandidateAction \<Rightarrow> bool" where
  "exceedsCeiling rt a =
     (action a = ''executeTransaction'' \<and> js_gt rt (js_get_opt (params a) ''value'') 1000)"

text \<open>The four strings \<^verbatim>\<open>generateContextualResponse\<close> can return.\<close>

definition responseTemplates :: "string list" where
  "responseTemplates =
     [''Hello! How can I assist you with blockchain or AI tasks?'',
      ''Let me look that up for you. I'll respond shortly.'',
      ''I can assist with blockchain transactions. Please provide more details.'',
      ''Thank you for your message. I'll process it accordingly.'']"

definition approvedVerdict :: EthicalVerdict where
  "approvedVerdict =
     \<lparr>approved = True,
      reason = ''Action passes all three formulations of the categorical imperative''\<rparr>"

text \<open>The fields the Enricher derives for a category.\<close>

definition derivedFields :: "string \<Rightarrow> string list" where
  "derivedFields ty =
     (if ty = ''transaction'' then [''transactionType'', ''risk'']
      else if ty = ''message'' then [''intent'', ''sentiment'']
      else if ty = ''event'' then [''eventCategory'']
      else [])"

text \<open>Sample inputs: the scenarios of the specification and a few actions.\<close>

definition scenario_transaction :: jsval where
  "scenario_transaction =
     JObj [(''hash'', JStr ''0x1''), (''from'', JStr ''0xA''), (''to'', JStr ''0xB''),
           (''value'', JNum (Fin (3 / 2))), (''data'', JStr ''0x''), (''chainId'', JStr ''1'')]"

definition scenario_message :: jsval where
  "scenario_message =
     JObj [(''content'', JStr ''Hello, can you help me with my investment portfolio?'')]"

definition scenario_unknown :: jsval where
  "scenario_unknown = JObj [(''type'', JStr ''unknown''), (''data'', JStr ''...'')]"

definition critique_sample :: "rat \<Rightarrow> string list \<Rightarrow> string list \<Rightarrow> CritiqueOutput" where
  "critique_sample c ls us =
     \<lparr>confidence = Fin c, limitations = ls, uncertainties = us, approvedActions = [],
      rejectedActions = Some [], explanation = []\<rparr>"

definition execute_sample :: "obj \<Rightarrow> CandidateAction" where
  "execute_sample ps =
     \<lparr>action = ''executeTransaction'', params = JObj ps,
      justification = ''Transaction parameters validated, value is positive''\<rparr>"

definition respond_sample :: "string \<Rightarrow> CandidateAction" where
  "respond_sample c =
     \<lparr>action = ''respondToMessage'', params = JObj [(''content'', JStr c)],
      justification = ''Generated response based on intent, sentiment, and history''\<rparr>"

definition log_sample :: CandidateAction where
  "log_sample =
     \<lparr>action = ''logEvent'', params = JObj [(''event'', JObj [])],
      justification = ''Record event for future reference''\<rparr>"

definition proposal_sample :: ReasonOutput where
  "proposal_sample =
     \<lparr>proposedActions =
        [execute_sample [(''to'', JStr ''0xB''), (''value'', JNum (Fin (- 5)))],
         execute_sample [(''to'', JStr ''0xB''), (''value'', JNum (Fin 2000))],
         log_sample],
      reasoning = ''Sample''\<rparr>"

definition scam_sample :: "rat \<Rightarrow> bool \<Rightarrow> CandidateAction" where
  "scam_sample v forced =
     execute_sample ([(''to'', JStr ''0xknownScamAddress''), (''value'', JNum (Fin v))]
                     @ (if forced then [(''force'', JBool True)] else []))"

definition message_understanding :: UnderstandingOutput where
  "message_understanding =
     \<lparr>categorizedData =
        [(''content'', JStr ''Hello, can you help me with my investment portfolio?''),
         (''sender'', JUndefined),
         (''timestamp'', JNum (Fin 1700000000000)),
         (''conversationHistory'', JArr []),
         (''intent'', JStr ''question''),
         (''sentiment'', JStr ''neutral'')],
      metadata = \<lparr>dataType = ''message'', source = Src (JStr ''unknown''),
                  timestamp = Fin 1700000000000\<rparr>\<rparr>"

text \<open>
  The first stages of \<^verbatim>\<open>carPipeline\<close>: the enriched record, and the candidate
  actions proposed for it.
\<close>

definition pipelineUnderstanding ::
    "runtime \<Rightarrow> jsval \<Rightarrow> obj option \<Rightarrow> UnderstandingOutput option" where
  "pipelineUnderstanding rt rawInput context =
     sensibilityLayer rt \<lparr>rawData = rawInput, inputContext = context\<rparr>
       \<bind> understandingLayer rt"

definition pipelineProposal :: "runtime \<Rightarrow> jsval \<Rightarrow> obj option \<Rightarrow> ReasonOutput option" where
  "pipelineProposal rt rawInput context =
     map_option (reasonLayer rt) (pipelineUnderstanding rt rawInput context)"

definition transaction_record :: obj where
  "transaction_record =
     [(''hash'', JStr ''0x1''), (''from'', JStr ''0xA''), (''to'', JStr ''0xB''),
      (''value'', JNum (Fin (3 / 2))), (''data'', JStr ''0x''), (''gas'', JUndefined),
      (''chainId'', JStr ''1''), (''previousTxs'', JArr [])]"

definition transaction_proposal :: ReasonOutput where
  "transaction_proposal =
     \<lparr>proposedActions =
        [\<lparr>action = ''verifyRecipient'', params = JObj [(''address'', JStr ''0xB'')],
          justification = ''Ensure recipient is valid and not flagged for scams''\<rparr>,
         \<lparr>action = ''executeTransaction'',
          params = JObj [(''to'', JStr ''0xB''), (''value'', JNum (Fin (3 / 2))),
                         (''data'', JStr ''0x'')],
          justification = ''Transaction parameters validated, value is positive''\<rparr>,
         \<lparr>action = ''checkGasPrice'', params = JObj [(''chainId'', JStr ''1'')],
          justification = ''Optimize transaction cost based on current gas prices''\<rparr>],
      reasoning = ''Analyzing value-transfer transaction from 0xA to 0xB''\<rparr>"

text \<open>
  The checks of the blockchain evaluator in the words of the specification: the
  parameters each monetary action requires and the reason given when one is missing;
  a recipient that is absent, or a string that is neither known as malicious nor starts
  with \<^verbatim>\<open>0x000\<close>; call data longer than 2 being present; a recipient with the
  \<^verbatim>\<open>0xsafe\<close> prefix; a present value above 1000 and the verdict it causes.
\<close>

definition requiredParams :: "string \<Rightarrow> string list" where
  "requiredParams name =
     (if name = ''executeTransaction'' then [''to'']
      else if name = ''deployContract'' then [''bytecode'']
      else if name = ''callContract'' then [''to'', ''data'']
      else if name = ''signMessage'' then [''message'']
      else if name = ''approveToken'' then [''token'', ''spender'', ''amount'']
      else if name = ''transferToken'' then [''token'', ''to'', ''amount'']
      else [])"

definition missingReason :: "string \<Rightarrow> string" where
  "missingReason name =
     (if name = ''executeTransaction'' then ''Missing recipient address''
      else if name = ''deployContract'' then ''Missing contract bytecode''
      else if name = ''callContract'' then ''Missing contract address or call data''
      else if name = ''signMessage'' then ''Missing message to sign''
      else if name = ''approveToken''
        then ''Missing token approval parameters (token, spender, or amount)''
      else if name = ''transferToken''
        then ''Missing token transfer parameters (token, recipient, or amount)''
      else ''Unknown blockchain action'')"

definition paramsPresent :: "BlockchainAction \<Rightarrow> bool" where
  "paramsPresent a =
     (\<forall>k \<in> set (requiredParams (action a)). js_truthy (js_get_opt (params a) k))"

definition recipientCleared :: "BlockchainAction \<Rightarrow> bool" where
  "recipientCleared a =
     (case js_get_opt (params a) ''to'' of
        JStr s \<Rightarrow> s = [] \<or> (s \<notin> set knownMaliciousAddresses \<and> \<not> starts_with s ''0x000'')
      | r \<Rightarrow> \<not> js_truthy r)"

definition hasCallData :: "runtime \<Rightarrow> BlockchainAction \<Rightarrow> bool" where
  "hasCallData rt a =
     (js_truthy (js_get_opt (params a) ''data'')
      \<and> js_gt rt (js_get_opt (js_get_opt (params a) ''data'') ''length'') 2)"

definition trustedContract :: "BlockchainAction \<Rightarrow> bool" where
  "trustedContract a =
     (case js_get_opt (params a) ''to'' of JStr s \<Rightarrow> starts_with s ''0xsafe'' | r \<Rightarrow> False)"

definition valueExceeds :: "runtime \<Rightarrow> BlockchainAction \<Rightarrow> bool" where
  "valueExceeds rt a =
     (js_truthy (js_get_opt (params a) ''value'')
      \<and> js_gt rt (js_get_opt (params a) ''value'') 1000)"

definition valueRejection :: "runtime \<Rightarrow> BlockchainAction \<Rightarrow> EthicalVerdict" where
  "valueRejection rt a =
     \<lparr>approved = False,
      reason = ''Transaction value exceeds maximum allowed limit of ''
                 @ NumberToString rt (Fin 1000) @ '' ''
                 @ ToString rt (js_or (js_get_opt (params a) ''token'') (JStr ''ETH''))\<rparr>"

text \<open>A normalized record without its \<^verbatim>\<open>timestamp\<close> field.\<close>

definition without_timestamp :: "obj \<Rightarrow> obj" where
  "without_timestamp kvs = filter (\<lambda>kv. fst kv \<noteq> ''timestamp'') kvs"

definition monetary_sample :: "string \<Rightarrow> obj \<Rightarrow> BlockchainAction" where
  "monetary_sample name ps = \<lparr>action = name, params = JObj ps, justification = []\<rparr>"

definition deployment_sample :: BlockchainAction where
  "deployment_sample =
     monetary_sample ''deployContract''
       [(''bytecode'', JStr ''0x6080''), (''data'', JStr ''0x1234'')]"

text \<open>
  The five categories; the inputs on which the stages after the normalizer have no
  failing operation (a message whose content is a string, a transaction whose call data
  is not an object); the candidate actions on which the critique has none (parameters
  in an object, a response with a string as content); and the monetary actions on which
  the blockchain evaluator has none (parameters present, a string recipient, or none
  and no call data, and call data that is a string or an array).
\<close>

definition categories :: "string list" where
  "categories = [''transaction'', ''message'', ''event'', ''userInput'', ''unknown'']"

fun is_string :: "jsval \<Rightarrow> bool" where
  "is_string (JStr s) = True"
| "is_string v = False"

fun is_array :: "jsval \<Rightarrow> bool" where
  "is_array (JArr xs) = True"
| "is_array v = False"

fun is_object :: "jsval \<Rightarrow> bool" where
  "is_object (JObj kvs) = True"
| "is_object v = False"

definition wellShaped :: "jsval \<Rightarrow> obj option \<Rightarrow> bool" where
  "wellShaped raw ctx =
     ((detectDataType raw ctx = Some ''message'' \<longrightarrow>
         is_string (js_or (js_get_opt raw ''content'') (js_get_opt raw ''message'')))
      \<and> (detectDataType raw ctx = Some ''transaction'' \<longrightarrow>
         \<not> is_object (js_get_opt raw ''data'')))"

definition wellFormedAction :: "CandidateAction \<Rightarrow> bool" where
  "wellFormedAction a =
     (case params a of
        JObj ps \<Rightarrow> action a = ''respondToMessage'' \<longrightarrow> is_string (obj_get ps ''content'')
      | v \<Rightarrow> False)"

definition evaluatorInputOk :: "runtime \<Rightarrow> BlockchainAction \<Rightarrow> bool" where
  "evaluatorInputOk rt a =
     (params a \<noteq> JUndefined \<and> params a \<noteq> JNull
      \<and> (is_string (js_get_opt (params a) ''to'')
           \<or> (\<not> js_truthy (js_get_opt (params a) ''to'') \<and> \<not> hasCallData rt a))
      \<and> (hasCallData rt a \<longrightarrow>
            is_string (js_get_opt (params a) ''data'')
            \<or> is_array (js_get_opt (params a) ''data'')))"

section \<open>Auxiliary facts\<close>

lemma js_get_defined:
  "v \<noteq> JUndefined \<Longrightarrow> v \<noteq> JNull \<Longrightarrow> \<exists>x. js_get v k = Some x"
  by (cases v) simp_all

lemma js_get_Some_defined:
  "js_get v k = Some x \<Longrightarrow> v \<noteq> JUndefined \<and> v \<noteq> JNull"
  by (cases v) simp_all

lemma detectDataType_Some_defined:
  "detectDataType raw ctx = Some t \<Longrightarrow> raw \<noteq> JUndefined \<and> raw \<noteq> JNull"
  by (auto simp: detectDataType_def split: bind_splits dest: js_get_Some_defined)

lemma detectSource_defined:
  assumes "raw \<noteq> JUndefined" "raw \<noteq> JNull"
  shows "\<exists>s. detectSource rt raw = Some s"
proof -
  from js_get_defined [OF assms] obtain c where c: "js_get raw ''chainId'' = Some c" by blast
  from js_get_defined [OF assms] obtain s where s: "js_get raw ''source'' = Some s" by blast
  show ?thesis by (simp add: detectSource_def c s)
qed

lemma isHighValue_Some:
  "isHighValue rt a = Some b \<Longrightarrow> b = exceedsCeiling rt a"
  by (auto simp: isHighValue_def exceedsCeiling_def js_get_opt_def split: if_splits bind_splits)

lemma highValuePenalty_Some:
  "highValuePenalty rt as c = Some c' \<Longrightarrow>
     c' = c - 1 / 10 * of_nat (length (filter (exceedsCeiling rt) as))"
proof (induction as arbitrary: c)
  case Nil
  then show ?case by simp
next
  case (Cons a as)
  from Cons.prems obtain hv where hv: "isHighValue rt a = Some hv"
    and rest: "highValuePenalty rt as (if hv then c - 1 / 10 else c) = Some c'"
    by (auto split: bind_splits)
  from isHighValue_Some [OF hv] have e: "hv = exceedsCeiling rt a" .
  from Cons.IH [OF rest] show ?case
    by (cases "exceedsCeiling rt a") (simp_all add: e field_simps)
qed

lemma calculateConfidence_Some:
  assumes "calculateConfidence rt ap rj un = Some c"
  shows "c = max 0 (1 - 2 / 10 * of_nat (length rj) - 1 / 10 * of_nat (length un)
                      - 1 / 10 * of_nat (length (filter (exceedsCeiling rt) ap)))"
proof -
  from assms obtain c3 where
    p: "highValuePenalty rt ap
          ((if length rj > 0 then 1 - 2 / 10 * of_nat (length rj) else 1)
             - (if length un > 0 then 1 / 10 * of_nat (length un) else 0)) = Some c3"
    and c: "c = max 0 c3"
    by (auto simp: calculateConfidence_def Let_def split: bind_splits if_splits)
  have "(if length rj > 0 then 1 - 2 / 10 * of_nat (length rj) else (1::rat))
          = 1 - 2 / 10 * of_nat (length rj)" by simp
  moreover have "(if length un > 0 then 1 / 10 * of_nat (length un) else (0::rat))
          = 1 / 10 * of_nat (length un)" by simp
  ultimately show ?thesis using highValuePenalty_Some [OF p] c by simp
qed

lemma critiqueLoop_Some:
  "critiqueLoop rt as st = Some st' \<Longrightarrow>
     st_approved st' = st_approved st @ filter (ethicallyApproved rt) as
   \<and> st_rejected st' = st_rejected st @ filter (\<lambda>a. \<not> ethicallyApproved rt a) as
   \<and> length (st_uncertainties st')
       = length (st_uncertainties st) + length (filter (flaggedUncertain rt) as)
   \<and> length (st_limitations st')
       = length (st_limitations st) + length (filter (\<lambda>a. \<not> ethicallyApproved rt a) as)"
proof (induction as arbitrary: st)
  case Nil
  then show ?case by simp
next
  case (Cons a as)
  from Cons.prems obtain ec bc st2 where
    ec: "categoricalImperative rt a = Some ec"
    and bc: "checkEpistemicBoundaries_action rt a = Some bc"
    and rest: "critiqueLoop rt as st2 = Some st'"
    and ap: "st_approved st2 = st_approved st @ (if approved ec then [a] else [])"
    and rj: "st_rejected st2 = st_rejected st @ (if approved ec then [] else [a])"
    and un: "length (st_uncertainties st2)
               = length (st_uncertainties st) + (if uncertain bc then 1 else 0)"
    and li: "length (st_limitations st2)
               = length (st_limitations st) + (if approved ec then 0 else 1)"
    by (auto simp: Let_def split: bind_splits if_splits)
  from Cons.IH [OF rest] show ?case
    by (simp add: ap rj un li ethicallyApproved_def flaggedUncertain_def ec bc)
qed

lemma critiqueLayer_Some:
  assumes "critiqueLayer rt r = Some out"
  shows "rejectedActions out
           = Some (filter (\<lambda>a. \<not> ethicallyApproved rt a) (proposedActions r))"
    and "approvedActions out = filter (ethicallyApproved rt) (proposedActions r)"
    and "length (uncertainties out) = length (filter (flaggedUncertain rt) (proposedActions r))"
proof -
  let ?st0 = "\<lparr>st_approved = [], st_rejected = [], st_limitations = [],
               st_uncertainties = [], st_explanation = []\<rparr>"
  from assms obtain st where
    loop: "critiqueLoop rt (proposedActions r) ?st0 = Some st"
    and out: "rejectedActions out = Some (st_rejected st)"
             "approvedActions out = st_approved st" "uncertainties out = st_uncertainties st"
    by (auto simp: critiqueLayer_def split: bind_splits)
  from critiqueLoop_Some [OF loop] out
  show "rejectedActions out
           = Some (filter (\<lambda>a. \<not> ethicallyApproved rt a) (proposedActions r))"
    and "approvedActions out = filter (ethicallyApproved rt) (proposedActions r)"
    and "length (uncertainties out) = length (filter (flaggedUncertain rt) (proposedActions r))"
    by simp_all
qed

lemma templates_clean:
  "\<forall>c \<in> set responseTemplates.
     length c < 500 \<and> \<not> str_includes c ''mislead'' \<and> \<not> str_includes c ''manipulate''
     \<and> \<not> str_includes c ''hate speech''"
  by code_simp

lemma generateContextualResponse_template:
  "generateContextualResponse cd \<in> set responseTemplates"
  by (simp add: generateContextualResponse_def responseTemplates_def)

lemma response_action_clean:
  assumes "c \<in> set responseTemplates"
  shows "categoricalImperative rt \<lparr>action = ''respondToMessage'',
             params = JObj [(''content'', JStr c), (''context'', x)], justification = j\<rparr>
           = Some approvedVerdict"
    and "checkEpistemicBoundaries_action rt \<lparr>action = ''respondToMessage'',
             params = JObj [(''content'', JStr c), (''context'', x)], justification = j\<rparr>
           = Some \<lparr>uncertain = False, flag_reason = []\<rparr>"
proof -
  from templates_clean assms have
    c: "length c < 500" "\<not> str_includes c ''mislead''" "\<not> str_includes c ''manipulate''"
       "\<not> str_includes c ''hate speech''"
    by blast+
  show "categoricalImperative rt \<lparr>action = ''respondToMessage'',
             params = JObj [(''content'', JStr c), (''context'', x)], justification = j\<rparr>
           = Some approvedVerdict"
    using c by (simp add: categoricalImperative_def universalizabilityTest_def
        humanityAsEndTest_def kingdomOfEndsTest_def respondsWith_def obj_get_def
        approvedVerdict_def)
  show "checkEpistemicBoundaries_action rt \<lparr>action = ''respondToMessage'',
             params = JObj [(''content'', JStr c), (''context'', x)], justification = j\<rparr>
           = Some \<lparr>uncertain = False, flag_reason = []\<rparr>"
    using c by (simp add: checkEpistemicBoundaries_action_def obj_get_def js_gt_def js_length_def)
qed

lemma reasonLayer_respond:
  assumes "a \<in> set (proposedActions (reasonLayer rt u))" "action a = ''respondToMessage''"
  shows "a = \<lparr>action = ''respondToMessage'',
        params = JObj [(''content'', JStr (generateContextualResponse (categorizedData u))),
                       (''context'', JObj (categorizedData u))],
        justification = ''Generated response based on intent, sentiment, and history''\<rparr>"
proof -
  consider (t) "dataType (metadata u) = ''transaction''"
    | (m) "dataType (metadata u) = ''message''"
    | (e) "dataType (metadata u) = ''event''"
    | (o) "dataType (metadata u) \<noteq> ''transaction''" "dataType (metadata u) \<noteq> ''message''"
          "dataType (metadata u) \<noteq> ''event''"
    by blast
  then show ?thesis
  proof cases
    case t
    with assms(1) have "action a \<in> {''verifyRecipient'', ''executeTransaction'',
                            ''checkGasPrice'', ''monitorTransaction''}"
      by (auto simp: reasonLayer_def Let_def split: if_splits)
    with assms(2) show ?thesis by simp
  next
    case m
    with assms(1) have "a = \<lparr>action = ''respondToMessage'',
        params = JObj [(''content'', JStr (generateContextualResponse (categorizedData u))),
                       (''context'', JObj (categorizedData u))],
        justification = ''Generated response based on intent, sentiment, and history''\<rparr>
      \<or> action a = ''searchForAnswer''"
      by (auto simp: reasonLayer_def Let_def split: if_splits)
    with assms(2) show ?thesis by auto
  next
    case e
    with assms(1) have "action a = ''logEvent''"
      by (auto simp: reasonLayer_def Let_def split: if_splits)
    with assms(2) show ?thesis by simp
  next
    case o
    with assms(1) show ?thesis by (simp add: reasonLayer_def Let_def)
  qed
qed

lemma carPipeline_stages:
  "carPipeline rt raw ctx =
     (case pipelineProposal rt raw ctx \<bind> critiqueLayer rt of
        None \<Rightarrow> Inl PipelineFailed | Some c \<Rightarrow> Inr c)"
  by (cases "sensibilityLayer rt \<lparr>rawData = raw, inputContext = ctx\<rparr>")
     (auto simp: carPipeline_def pipelineProposal_def pipelineUnderstanding_def
        split: bind_splits option.splits)

lemma carPipeline_Inr:
  assumes "carPipeline rt raw ctx = Inr out"
  shows "\<exists>p. pipelineProposal rt raw ctx = Some p \<and> critiqueLayer rt p = Some out"
  using assms
  by (auto simp: carPipeline_stages split: option.splits bind_splits)

lemma scenario_sensibility:
  "sensibilityLayer rt \<lparr>rawData = scenario_transaction, inputContext = None\<rparr>
     = Some \<lparr>categorizedData = transaction_record,
             metadata = \<lparr>dataType = ''transaction'', source = Src (JStr ''Ethereum''),
                         timestamp = Fin (Date_now rt)\<rparr>\<rparr>"
  by (simp add: sensibilityLayer_def detectDataType_def detectSource_def structureData_def
      scenario_transaction_def transaction_record_def obj_get_def js_and_def js_or_def
      chainMap_def context_get_def)

lemma scenario_understanding:
  "dataType md = ''transaction'' \<Longrightarrow>
   understandingLayer rt \<lparr>categorizedData = transaction_record, metadata = md\<rparr>
     = Some \<lparr>categorizedData = transaction_record
                @ [(''transactionType'', JStr ''value-transfer''), (''risk'', JStr ''low'')],
             metadata = md\<rparr>"
  by (simp add: understandingLayer_def categorizeTransaction_def assessRisk_def
      transaction_record_def obj_get_def obj_set_def js_gt_def js_get_opt_def js_length_def)

lemma scenario_reason:
  "dataType md = ''transaction'' \<Longrightarrow>
   reasonLayer rt \<lparr>categorizedData = transaction_record
                @ [(''transactionType'', JStr ''value-transfer''), (''risk'', JStr ''low'')],
             metadata = md\<rparr> = transaction_proposal"
  by (simp add: reasonLayer_def transaction_record_def transaction_proposal_def obj_get_def
      js_gt_def)

lemma scenario_critique:
  "critiqueLayer rt transaction_proposal
     = Some \<lparr>confidence = Fin 1, limitations = [], uncertainties = [],
             approvedActions = proposedActions transaction_proposal,
             rejectedActions = Some [],
             explanation = reasoning transaction_proposal @ newline
               @ (newline @ ''Approved: verifyRecipient - '' @ reason approvedVerdict
                  @ newline @ ''Approved: executeTransaction - '' @ reason approvedVerdict
                  @ newline @ ''Approved: checkGasPrice - '' @ reason approvedVerdict)
               @ newline @ ''Confidence: '' @ NumberToString rt (Fin 1)\<rparr>"
  by (simp add: critiqueLayer_def transaction_proposal_def categoricalImperative_def
      universalizabilityTest_def humanityAsEndTest_def kingdomOfEndsTest_def respondsWith_def
      checkEpistemicBoundaries_action_def calculateConfidence_def isHighValue_def
      obj_get_def js_gt_def js_lt_def approvedVerdict_def)

lemma js_get_opt_Some:
  "v \<noteq> JUndefined \<Longrightarrow> v \<noteq> JNull \<Longrightarrow> js_get v k = Some (js_get_opt v k)"
  by (cases v) (simp_all add: js_get_opt_def)

lemma param_missing_eq:
  "params a \<noteq> JUndefined \<Longrightarrow> params a \<noteq> JNull \<Longrightarrow>
     param_missing a k = Some (\<not> js_truthy (js_get_opt (params a) k))"
  by (simp add: param_missing_def js_get_opt_Some)

lemma validateActionParams_eq:
  assumes "params a \<noteq> JUndefined" "params a \<noteq> JNull" "isBlockchainAction a"
  shows "validateActionParams a =
           Some (if paramsPresent a
                 then \<lparr>valid = True, valid_reason = ''All required parameters are present''\<rparr>
                 else \<lparr>valid = False, valid_reason = missingReason (action a)\<rparr>)"
proof -
  from assms(3) consider "action a = ''executeTransaction''" | "action a = ''deployContract''"
    | "action a = ''callContract''" | "action a = ''signMessage''"
    | "action a = ''approveToken''" | "action a = ''transferToken''"
    by (auto simp: isBlockchainAction_def blockchainActions_def)
  then show ?thesis
    by cases
       (simp_all add: validateActionParams_def param_missing_eq [OF assms(1,2)]
          paramsPresent_def requiredParams_def missingReason_def Let_def)
qed

lemma valueCheckFrom_eq:
  assumes "params a \<noteq> JUndefined" "params a \<noteq> JNull"
  shows "valueCheckFrom rt a =
           Some (if valueExceeds rt a then valueRejection rt a
                 else \<lparr>approved = True,
                       reason = ''Blockchain action passed all ethical checks''\<rparr>)"
  by (simp add: valueCheckFrom_def js_get_opt_Some [OF assms] valueExceeds_def
      valueRejection_def checkTransactionValue_def MAX_TRANSACTION_VALUE_def)

lemma contractCheckFrom_eq:
  assumes "params a \<noteq> JUndefined" "params a \<noteq> JNull"
  shows "\<not> hasCallData rt a \<Longrightarrow> contractCheckFrom rt a = valueCheckFrom rt a"
    and "hasCallData rt a \<Longrightarrow> js_get_opt (params a) ''to'' = JStr s \<Longrightarrow>
           starts_with s ''0xsafe'' \<Longrightarrow> contractCheckFrom rt a = valueCheckFrom rt a"
    and "hasCallData rt a \<Longrightarrow> js_get_opt (params a) ''to'' = JStr s \<Longrightarrow>
           \<not> starts_with s ''0xsafe'' \<Longrightarrow>
           js_includes (js_get_opt (params a) ''data'') ''selfdestruct'' = Some True \<Longrightarrow>
           contractCheckFrom rt a
             = Some \<lparr>approved = False,
                     reason = ''Unsafe contract interaction: Contract interaction includes dangerous operations (selfdestruct).''\<rparr>"
    and "hasCallData rt a \<Longrightarrow> js_get_opt (params a) ''to'' = JStr s \<Longrightarrow>
           \<not> starts_with s ''0xsafe'' \<Longrightarrow>
           js_includes (js_get_opt (params a) ''data'') ''selfdestruct'' = Some False \<Longrightarrow>
           contractCheckFrom rt a
             = Some \<lparr>approved = False,
                     reason = ''Unsafe contract interaction: Contract safety could not be verified.''\<rparr>"
  by (auto simp: contractCheckFrom_def js_get_opt_Some [OF assms] hasCallData_def
      checkContractSafety_def)

lemma addressCheckFrom_eq:
  assumes "params a \<noteq> JUndefined" "params a \<noteq> JNull"
  shows "js_get_opt (params a) ''to'' = JStr s \<Longrightarrow> s \<in> set knownMaliciousAddresses \<Longrightarrow>
           addressCheckFrom rt a
             = Some \<lparr>approved = False,
                     reason = ''Malicious recipient address: Address is known to be associated with scams or malicious activities.''\<rparr>"
    and "js_get_opt (params a) ''to'' = JStr s \<Longrightarrow> s \<notin> set knownMaliciousAddresses \<Longrightarrow>
           starts_with s ''0x000'' \<Longrightarrow>
           addressCheckFrom rt a
             = Some \<lparr>approved = False,
                     reason = ''Suspicious recipient address: Address matches suspicious pattern (starts with 0x000).''\<rparr>"
    and "recipientCleared a \<Longrightarrow> addressCheckFrom rt a = contractCheckFrom rt a"
proof -
  note g = js_get_opt_Some [OF assms]
  show "js_get_opt (params a) ''to'' = JStr s \<Longrightarrow> s \<in> set knownMaliciousAddresses \<Longrightarrow>
           addressCheckFrom rt a
             = Some \<lparr>approved = False,
                     reason = ''Malicious recipient address: Address is known to be associated with scams or malicious activities.''\<rparr>"
    by (auto simp: addressCheckFrom_def g checkAddress_def knownMaliciousAddresses_def)
  show "js_get_opt (params a) ''to'' = JStr s \<Longrightarrow> s \<notin> set knownMaliciousAddresses \<Longrightarrow>
           starts_with s ''0x000'' \<Longrightarrow>
           addressCheckFrom rt a
             = Some \<lparr>approved = False,
                     reason = ''Suspicious recipient address: Address matches suspicious pattern (starts with 0x000).''\<rparr>"
    by (auto simp: addressCheckFrom_def g checkAddress_def knownMaliciousAddresses_def
        starts_with_def)
  show "recipientCleared a \<Longrightarrow> addressCheckFrom rt a = contractCheckFrom rt a"
    by (cases "js_get_opt (params a) ''to''")
       (auto simp: addressCheckFrom_def g checkAddress_def recipientCleared_def image_iff)
qed

lemma ToString_clock [simp]: "ToString (rt\<lparr>Date_now := t\<rparr>) v = ToString rt v"
proof (induction rt v rule: ToString.induct)
  case (6 rt xs)
  have "map (\<lambda>x. if x = JUndefined \<or> x = JNull then []
                  else ToString (rt\<lparr>Date_now := t\<rparr>) x) xs
          = map (\<lambda>x. if x = JUndefined \<or> x = JNull then [] else ToString rt x) xs"
    by (rule map_cong [OF refl]) (simp add: "6")
  then show ?case by (simp only: ToString.simps)
qed simp_all

lemma ToNumber_clock [simp]: "ToNumber (rt\<lparr>Date_now := t\<rparr>) v = ToNumber rt v"
  by (cases v) (simp_all del: ToString.simps)

lemma js_gt_clock [simp]: "js_gt (rt\<lparr>Date_now := t\<rparr>) v c = js_gt rt v c"
  by (simp add: js_gt_def)

lemma js_lt_clock [simp]: "js_lt (rt\<lparr>Date_now := t\<rparr>) v c = js_lt rt v c"
  by (simp add: js_lt_def)

lemma js_toLowerCase_clock [simp]:
  "js_toLowerCase (rt\<lparr>Date_now := t\<rparr>) v = js_toLowerCase rt v"
  by (cases v) simp_all

lemma categoricalImperative_clock [simp]:
  "categoricalImperative (rt\<lparr>Date_now := t\<rparr>) a = categoricalImperative rt a"
  by (simp add: categoricalImperative_def universalizabilityTest_def)

lemma checkEpistemicBoundaries_action_clock [simp]:
  "checkEpistemicBoundaries_action (rt\<lparr>Date_now := t\<rparr>) a = checkEpistemicBoundaries_action rt a"
  by (simp add: checkEpistemicBoundaries_action_def)

lemma critiqueLoop_clock [simp]:
  "critiqueLoop (rt\<lparr>Date_now := t\<rparr>) as st = critiqueLoop rt as st"
  by (induction as arbitrary: st) simp_all

lemma highValuePenalty_clock [simp]:
  "highValuePenalty (rt\<lparr>Date_now := t\<rparr>) as c = highValuePenalty rt as c"
  by (induction as arbitrary: c) (simp_all add: isHighValue_def)

lemma critiqueLayer_clock:
  "critiqueLayer (rt\<lparr>Date_now := t\<rparr>) r = critiqueLayer rt r"
  by (simp add: critiqueLayer_def calculateConfidence_def Let_def)

lemma understandingLayer_clock:
  "understandingLayer (rt\<lparr>Date_now := t\<rparr>) u = understandingLayer rt u"
  by (simp add: understandingLayer_def categorizeTransaction_def assessRisk_def
      detectIntent_def analyzeSentiment_def Let_def)

lemma reasonLayer_clock:
  "reasonLayer (rt\<lparr>Date_now := t\<rparr>) u = reasonLayer rt u"
  by (simp add: reasonLayer_def Let_def)

lemma detectSource_clock:
  "detectSource (rt\<lparr>Date_now := t\<rparr>) raw = detectSource rt raw"
  by (simp add: detectSource_def cong: if_cong option.case_cong)

lemma evaluateBlockchainAction_clock:
  "evaluateBlockchainAction (rt\<lparr>Date_now := t\<rparr>) a = evaluateBlockchainAction rt a"
  by (simp add: evaluateBlockchainAction_def addressCheckFrom_def contractCheckFrom_def
      valueCheckFrom_def checkTransactionValue_def cong: if_cong)

lemma boundary_clock:
  "checkEpistemicBoundaries (rt\<lparr>Date_now := t\<rparr>) out thr = checkEpistemicBoundaries rt out thr"
  by (simp add: checkEpistemicBoundaries_def Let_def)

lemma explanation_clock:
  "generateExplanation (rt\<lparr>Date_now := t\<rparr>) out = generateExplanation rt out"
  by (simp add: generateExplanation_def Let_def)

lemma structureData_clock:
  "map_option without_timestamp (structureData (rt\<lparr>Date_now := t\<rparr>) raw ty ctx)
     = map_option without_timestamp (structureData rt raw ty ctx)"
  by (cases "raw = JUndefined \<or> raw = JNull")
     (auto simp: structureData_def without_timestamp_def split: bind_splits dest: js_get_Some_defined)

lemma map_of_append_left:
  "map_of xs k = Some v \<Longrightarrow> map_of (xs @ ys) k = Some v"
  by (simp add: map_add_Some_iff)

lemma detectDataType_total:
  assumes "raw \<noteq> JUndefined" "raw \<noteq> JNull"
  shows "\<exists>c \<in> set categories. detectDataType raw ctx = Some c"
  by (simp add: detectDataType_def js_get_opt_Some [OF assms] categories_def)

lemma structureData_total:
  assumes "raw \<noteq> JUndefined" "raw \<noteq> JNull"
  shows "\<exists>rec. structureData rt raw ty ctx = Some rec"
  by (simp add: structureData_def js_get_opt_Some [OF assms])

lemma sensibilityLayer_total:
  assumes "raw \<noteq> JUndefined" "raw \<noteq> JNull"
  shows "\<exists>s. sensibilityLayer rt \<lparr>rawData = raw, inputContext = ctx\<rparr> = Some s"
proof -
  from detectDataType_total [OF assms] obtain c where "detectDataType raw ctx = Some c"
    by blast
  moreover from detectSource_defined [OF assms] obtain s where "detectSource rt raw = Some s"
    by blast
  moreover from structureData_total [OF assms] obtain r where
    "structureData rt raw c ctx = Some r" by blast
  ultimately show ?thesis by (simp add: sensibilityLayer_def)
qed

lemma wellFormed_checks:
  assumes "wellFormedAction a"
  shows "\<exists>v. categoricalImperative rt a = Some v"
    and "\<exists>f. checkEpistemicBoundaries_action rt a = Some f"
    and "\<exists>b. isHighValue rt a = Some b"
proof -
  from assms obtain ps where ps: "params a = JObj ps"
    and c: "action a = ''respondToMessage'' \<longrightarrow> is_string (obj_get ps ''content'')"
    by (auto simp: wellFormedAction_def split: jsval.splits)
  have r: "\<exists>b. respondsWith a w = Some b" for w
  proof (cases "action a = ''respondToMessage''")
    case True
    with c obtain s where "obj_get ps ''content'' = JStr s"
      by (cases "obj_get ps ''content''") auto
    with True show ?thesis by (simp add: respondsWith_def ps)
  next
    case False
    then show ?thesis by (auto simp: respondsWith_def)
  qed
  from r obtain b1 where b1: "respondsWith a ''mislead'' = Some b1" by blast
  from r obtain b2 where b2: "respondsWith a ''manipulate'' = Some b2" by blast
  from r obtain b3 where b3: "respondsWith a ''hate speech'' = Some b3" by blast
  show "\<exists>v. categoricalImperative rt a = Some v"
    by (auto simp: categoricalImperative_def universalizabilityTest_def humanityAsEndTest_def
        kingdomOfEndsTest_def ps b1 b2 b3)
  show "\<exists>b. isHighValue rt a = Some b"
    by (auto simp: isHighValue_def ps)
  show "\<exists>f. checkEpistemicBoundaries_action rt a = Some f"
  proof (cases "action a = ''respondToMessage''")
    case True
    with c obtain s where "obj_get ps ''content'' = JStr s"
      by (cases "obj_get ps ''content''") auto
    with True show ?thesis by (auto simp: checkEpistemicBoundaries_action_def ps)
  next
    case False
    then show ?thesis by (auto simp: checkEpistemicBoundaries_action_def ps)
  qed
qed

lemma bind_total:
  "\<exists>y. m = Some y \<Longrightarrow> \<exists>r. (m \<bind> (\<lambda>y. Some (g y))) = Some r"
  by auto

lemma critiqueLoop_total:
  "\<forall>a \<in> set as. wellFormedAction a \<Longrightarrow> \<exists>st'. critiqueLoop rt as st = Some st'"
proof (induction as arbitrary: st)
  case Nil
  then show ?case by simp
next
  case (Cons a as)
  then have w: "wellFormedAction a" and rest: "\<forall>a \<in> set as. wellFormedAction a" by simp_all
  from wellFormed_checks(1) [OF w] obtain v where v: "categoricalImperative rt a = Some v"
    by blast
  from wellFormed_checks(2) [OF w] obtain f where
    f: "checkEpistemicBoundaries_action rt a = Some f" by blast
  show ?case by (simp add: v f Let_def Cons.IH [OF rest])
qed

lemma highValuePenalty_total:
  "\<forall>a \<in> set as. wellFormedAction a \<Longrightarrow> \<exists>c'. highValuePenalty rt as c = Some c'"
proof (induction as arbitrary: c)
  case Nil
  then show ?case by simp
next
  case (Cons a as)
  then have w: "wellFormedAction a" and rest: "\<forall>a \<in> set as. wellFormedAction a" by simp_all
  from wellFormed_checks(3) [OF w] obtain b where b: "isHighValue rt a = Some b" by blast
  show ?case by (simp add: b Cons.IH [OF rest])
qed

lemma critiqueLayer_total:
  assumes "\<forall>a \<in> set (proposedActions r). wellFormedAction a"
  shows "\<exists>out. critiqueLayer rt r = Some out"
proof -
  let ?st0 = "\<lparr>st_approved = [], st_rejected = [], st_limitations = [],
               st_uncertainties = [], st_explanation = []\<rparr>"
  from critiqueLoop_total [OF assms] obtain st where
    st: "critiqueLoop rt (proposedActions r) ?st0 = Some st" by blast
  from critiqueLoop_Some [OF st] have
    "st_approved st = filter (ethicallyApproved rt) (proposedActions r)" by simp
  with assms have "\<forall>a \<in> set (st_approved st). wellFormedAction a" by simp
  then have "\<exists>c'. highValuePenalty rt (st_approved st) c = Some c'" for c
    by (rule highValuePenalty_total)
  then have "\<exists>c. calculateConfidence rt (st_approved st) (st_rejected st)
                   (st_uncertainties st) = Some c"
    unfolding calculateConfidence_def Let_def by (intro bind_total)
  with st show ?thesis by (auto simp: critiqueLayer_def)
qed

lemma obj_get_simps:
  "obj_get [] k = JUndefined"
  "obj_get ((k', v) # kvs) k = (if k' = k then v else obj_get kvs k)"
  by (simp_all add: obj_get_def)

lemma reasonLayer_wellFormed:
  "\<forall>a \<in> set (proposedActions (reasonLayer rt u)). wellFormedAction a"
  by (auto simp: reasonLayer_def Let_def wellFormedAction_def obj_get_simps)


lemma categorizeTransaction_total:
  assumes "\<not> is_object d"
  shows "\<exists>tt. categorizeTransaction rt
           [(''hash'', h), (''from'', f), (''to'', t), (''value'', v),
            (''data'', js_or d (JStr [])), (''gas'', g), (''chainId'', c),
            (''previousTxs'', p)] = Some tt"
  using assms
  by (cases d)
     (auto simp: categorizeTransaction_def obj_get_simps js_or_def js_get_opt_def js_gt_def)

lemma message_enrichment_total:
  assumes "obj_get rec ''content'' = JStr c"
  shows "\<exists>i. detectIntent rt rec = Some i" and "\<exists>se. analyzeSentiment rt rec = Some se"
  by (simp_all add: detectIntent_def analyzeSentiment_def assms Let_def del: filter.simps)

lemma understandingLayer_total:
  assumes d: "raw \<noteq> JUndefined" "raw \<noteq> JNull"
    and ty: "detectDataType raw ctx = Some ty"
    and w: "wellShaped raw ctx"
    and s: "structureData rt raw ty ctx = Some rec"
    and md: "dataType md = ty"
  shows "\<exists>u. understandingLayer rt \<lparr>categorizedData = rec, metadata = md\<rparr> = Some u"
proof -
  note g = js_get_opt_Some [OF d]
  consider (t) "ty = ''transaction''" | (m) "ty = ''message''"
    | (o) "ty \<noteq> ''transaction''" "ty \<noteq> ''message''"
    by blast
  then show ?thesis
  proof cases
    case t
    with w ty have "\<not> is_object (js_get_opt raw ''data'')" by (simp add: wellShaped_def)
    note ct = categorizeTransaction_total [OF this]
    from s t have rec: "rec =
      [(''hash'', js_get_opt raw ''hash''), (''from'', js_get_opt raw ''from''),
       (''to'', js_get_opt raw ''to''),
       (''value'', js_or (js_get_opt raw ''value'') (JNum (Fin 0))),
       (''data'', js_or (js_get_opt raw ''data'') (JStr [])),
       (''gas'', js_get_opt raw ''gas''), (''chainId'', js_get_opt raw ''chainId''),
       (''previousTxs'', js_or (context_get ctx ''previousTransactions'') (JArr []))]"
      by (auto simp: structureData_def g)
    from ct obtain tt where "categorizeTransaction rt rec = Some tt"
      unfolding rec by blast
    then show ?thesis
      by (simp add: understandingLayer_def md t Let_def)
  next
    case m
    with w ty obtain c where
      c: "js_or (js_get_opt raw ''content'') (js_get_opt raw ''message'') = JStr c"
      by (cases "js_or (js_get_opt raw ''content'') (js_get_opt raw ''message'')")
         (auto simp: wellShaped_def)
    from s m have "obj_get rec ''content'' = JStr c"
      by (auto simp: structureData_def g obj_get_simps c)
    from message_enrichment_total [OF this] obtain i se where
      "detectIntent rt rec = Some i" "analyzeSentiment rt rec = Some se" by blast
    then show ?thesis
      by (simp add: understandingLayer_def md m Let_def)
  next
    case o
    then show ?thesis by (simp add: understandingLayer_def md)
  qed
qed

lemma carPipeline_total:
  assumes d: "raw \<noteq> JUndefined" "raw \<noteq> JNull" and w: "wellShaped raw ctx"
  shows "\<exists>out. carPipeline rt raw ctx = Inr out"
proof -
  from detectDataType_total [OF d] obtain ty where ty: "detectDataType raw ctx = Some ty"
    by blast
  from detectSource_defined [OF d] obtain src where src: "detectSource rt raw = Some src"
    by blast
  from structureData_total [OF d] obtain rec where
    rec: "structureData rt raw ty ctx = Some rec" by blast
  let ?md = "\<lparr>dataType = ty, source = src, timestamp = Fin (Date_now rt)\<rparr>"
  have s: "sensibilityLayer rt \<lparr>rawData = raw, inputContext = ctx\<rparr>
             = Some \<lparr>categorizedData = rec, metadata = ?md\<rparr>"
    by (simp add: sensibilityLayer_def ty src rec)
  from understandingLayer_total [OF d ty w rec, of ?md] obtain u where
    u: "understandingLayer rt \<lparr>categorizedData = rec, metadata = ?md\<rparr> = Some u"
    by auto
  from critiqueLayer_total [OF reasonLayer_wellFormed] obtain out where
    "critiqueLayer rt (reasonLayer rt u) = Some out" by blast
  then show ?thesis by (simp add: carPipeline_def s u)
qed

lemma carPipeline_nullish:
  "raw = JUndefined \<or> raw = JNull \<Longrightarrow>
     detectDataType raw ctx = None \<and> carPipeline rt raw ctx = Inl PipelineFailed"
  by (auto simp: detectDataType_def carPipeline_def sensibilityLayer_def)

lemma evaluateBlockchainAction_total:
  assumes "\<not> isBlockchainAction a \<or> evaluatorInputOk rt a"
  shows "\<exists>v. evaluateBlockchainAction rt a = Some v"
proof (cases "isBlockchainAction a")
  case False
  then show ?thesis by (simp add: evaluateBlockchainAction_def)
next
  case True
  with assms have ok: "evaluatorInputOk rt a" by simp
  then have d: "params a \<noteq> JUndefined" "params a \<noteq> JNull"
    by (simp_all add: evaluatorInputOk_def)
  note g = js_get_opt_Some [OF d]
  have v: "\<exists>v. valueCheckFrom rt a = Some v" by (simp add: valueCheckFrom_eq [OF d])
  have c: "\<exists>v. contractCheckFrom rt a = Some v"
  proof (cases "hasCallData rt a")
    case False
    with v show ?thesis by (simp add: contractCheckFrom_eq(1) [OF d])
  next
    case True
    with ok obtain s where s: "js_get_opt (params a) ''to'' = JStr s"
      by (cases "js_get_opt (params a) ''to''") (auto simp: evaluatorInputOk_def)
    from True ok obtain b where
      b: "js_includes (js_get_opt (params a) ''data'') ''selfdestruct'' = Some b"
      by (cases "js_get_opt (params a) ''data''") (auto simp: evaluatorInputOk_def)
    show ?thesis
    proof (cases "starts_with s ''0xsafe''")
      case safe: True
      with v True s show ?thesis by (simp add: contractCheckFrom_eq(2) [OF d])
    next
      case False
      with True s b show ?thesis
        by (cases b) (simp_all add: contractCheckFrom_eq(3,4) [OF d])
    qed
  qed
  have a: "\<exists>v. addressCheckFrom rt a = Some v"
  proof (cases "recipientCleared a")
    case True
    with c show ?thesis by (simp add: addressCheckFrom_eq(3) [OF d])
  next
    case False
    with ok obtain s where s: "js_get_opt (params a) ''to'' = JStr s"
      by (cases "js_get_opt (params a) ''to''") (auto simp: evaluatorInputOk_def recipientCleared_def)
    with False have "s \<in> set knownMaliciousAddresses
                     \<or> (s \<notin> set knownMaliciousAddresses \<and> starts_with s ''0x000'')"
      by (auto simp: recipientCleared_def)
    with s show ?thesis
      using addressCheckFrom_eq(1) [OF d s] addressCheckFrom_eq(2) [OF d s] by auto
  qed
  from a show ?thesis
    by (auto simp: evaluateBlockchainAction_def True validateActionParams_eq [OF d True])
qed

section \<open>The claims\<close>

subsection \<open>C1: the Boundary Decider\<close>

text \<open>
  C1. For every critique result and every threshold (0.7 when omitted), the Boundary
  Decider defers exactly when the confidence is below the threshold, or the limitations
  are not empty, or the uncertainties are not empty. The three conditions are tried in
  that order and the reason reported is that of the first one that holds; when none
  holds the decision is not to defer, with the reason "Within epistemic boundaries".
\<close>

theorem boundary_decider_priority:
  "(let t = (case threshold of None \<Rightarrow> Fin (7 / 10) | Some x \<Rightarrow> x);
        d = checkEpistemicBoundaries rt output threshold
    in (shouldDefer d \<longleftrightarrow>
          num_lt (confidence output) t \<or> limitations output \<noteq> [] \<or> uncertainties output \<noteq> [])
     \<and> (num_lt (confidence output) t \<longrightarrow>
          defer_reason d = ''Low confidence ('' @ toFixed rt (confidence output) 2
                             @ '') below threshold of '' @ NumberToString rt t)
     \<and> (\<not> num_lt (confidence output) t \<and> limitations output \<noteq> [] \<longrightarrow>
          defer_reason d = ''Limitations detected: '' @ join '', '' (limitations output))
     \<and> (\<not> num_lt (confidence output) t \<and> limitations output = []
          \<and> uncertainties output \<noteq> [] \<longrightarrow>
          defer_reason d = ''Uncertainties present: '' @ join '', '' (uncertainties output))
     \<and> (\<not> num_lt (confidence output) t \<and> limitations output = []
          \<and> uncertainties output = [] \<longrightarrow>
          d = \<lparr>shouldDefer = False, defer_reason = ''Within epistemic boundaries''\<rparr>))"
  by (simp add: checkEpistemicBoundaries_def Let_def)

text \<open>
  The four outcomes on concrete results: low confidence wins over limitations and
  uncertainties that are present too, limitations win over uncertainties.
\<close>

theorem boundary_decider_priority_witness:
  "checkEpistemicBoundaries sample_runtime (critique_sample (3 / 5) [''l1'', ''l2''] [''u1'']) None
     = \<lparr>shouldDefer = True,
        defer_reason = ''Low confidence (0.60) below threshold of 0.7''\<rparr>
   \<and> checkEpistemicBoundaries sample_runtime (critique_sample (4 / 5) [''l1'', ''l2''] [''u1'']) None
     = \<lparr>shouldDefer = True, defer_reason = ''Limitations detected: l1, l2''\<rparr>
   \<and> checkEpistemicBoundaries sample_runtime (critique_sample (4 / 5) [] [''u1'']) None
     = \<lparr>shouldDefer = True, defer_reason = ''Uncertainties present: u1''\<rparr>
   \<and> checkEpistemicBoundaries sample_runtime (critique_sample 1 [] []) (Some (Fin 1))
     = \<lparr>shouldDefer = False, defer_reason = ''Within epistemic boundaries''\<rparr>"
proof -
  have tf: "sample_toFixed (Fin (3 / 5)) 2 = ''0.60''" by code_simp
  have ns: "sample_NumberToString (Fin (7 / 10)) = ''0.7''" by code_simp
  note b = boundary_decider_priority [where rt = sample_runtime]
  show ?thesis
    using b [of None "critique_sample (3 / 5) [''l1'', ''l2''] [''u1'']"]
          b [of None "critique_sample (4 / 5) [''l1'', ''l2''] [''u1'']"]
          b [of None "critique_sample (4 / 5) [] [''u1'']"]
          b [of "Some (Fin 1)" "critique_sample 1 [] []"]
    by (simp add: critique_sample_def sample_runtime_def tf ns Let_def)
qed

subsection \<open>C2: the confidence of the Critique Aggregator\<close>



subsection \<open>C3: the Ethical Evaluator\<close>



subsection \<open>C4: the order of the blockchain evaluator's checks\<close>

text \<open>
  What \<^verbatim>\<open>evaluateBlockchainAction\<close> does where its checks return. It (a) approves
  an action whose name is not one of the six monetary names; for a monetary action with
  parameters it (b) rejects with the reason of that name when a required parameter is
  missing (so \<^verbatim>\<open>transferToken\<close> with empty parameters is rejected for its missing
  token, recipient or amount); otherwise (c) rejects a recipient on the known-malicious
  list, and one that starts with \<^verbatim>\<open>0x000\<close>; otherwise (d), when call data longer
  than 2 is present and the recipient is a string without the \<^verbatim>\<open>0xsafe\<close> prefix,
  rejects as dangerous when the data contain \<^verbatim>\<open>selfdestruct\<close> and as unverifiable
  when they do not; otherwise (e) rejects a present value above 1000, and approves what
  is left. Each case assumes that the earlier checks have passed, so the reason returned
  is that of the first failing check.
\<close>

theorem evaluateBlockchainAction_order:
  "(\<not> isBlockchainAction a \<longrightarrow>
      evaluateBlockchainAction rt a
        = Some \<lparr>approved = True, reason = ''Not a blockchain action''\<rparr>)
   \<and> (isBlockchainAction a \<and> params a \<noteq> JUndefined \<and> params a \<noteq> JNull \<longrightarrow>
        (\<not> paramsPresent a \<longrightarrow>
           evaluateBlockchainAction rt a
             = Some \<lparr>approved = False, reason = missingReason (action a)\<rparr>)
      \<and> (paramsPresent a \<longrightarrow>
           (\<forall>s. js_get_opt (params a) ''to'' = JStr s \<and> s \<in> set knownMaliciousAddresses \<longrightarrow>
              evaluateBlockchainAction rt a
                = Some \<lparr>approved = False,
                        reason = ''Malicious recipient address: Address is known to be associated with scams or malicious activities.''\<rparr>)
         \<and> (\<forall>s. js_get_opt (params a) ''to'' = JStr s \<and> s \<notin> set knownMaliciousAddresses
                \<and> starts_with s ''0x000'' \<longrightarrow>
              evaluateBlockchainAction rt a
                = Some \<lparr>approved = False,
                        reason = ''Suspicious recipient address: Address matches suspicious pattern (starts with 0x000).''\<rparr>)
         \<and> (recipientCleared a \<longrightarrow>
              (hasCallData rt a \<and> \<not> trustedContract a
                 \<and> (\<exists>s. js_get_opt (params a) ''to'' = JStr s)
                 \<and> js_includes (js_get_opt (params a) ''data'') ''selfdestruct'' = Some True \<longrightarrow>
                 evaluateBlockchainAction rt a
                   = Some \<lparr>approved = False,
                           reason = ''Unsafe contract interaction: Contract interaction includes dangerous operations (selfdestruct).''\<rparr>)
            \<and> (hasCallData rt a \<and> \<not> trustedContract a
                 \<and> (\<exists>s. js_get_opt (params a) ''to'' = JStr s)
                 \<and> js_includes (js_get_opt (params a) ''data'') ''selfdestruct'' = Some False \<longrightarrow>
                 evaluateBlockchainAction rt a
                   = Some \<lparr>approved = False,
                           reason = ''Unsafe contract interaction: Contract safety could not be verified.''\<rparr>)
            \<and> (\<not> hasCallData rt a \<or> trustedContract a \<longrightarrow>
                 (valueExceeds rt a \<longrightarrow>
                    evaluateBlockchainAction rt a = Some (valueRejection rt a))
               \<and> (\<not> valueExceeds rt a \<longrightarrow>
                    evaluateBlockchainAction rt a
                      = Some \<lparr>approved = True,
                              reason = ''Blockchain action passed all ethical checks''\<rparr>)))))
   \<and> evaluateBlockchainAction rt \<lparr>action = ''transferToken'', params = JObj [], justification = j\<rparr>
       = Some \<lparr>approved = False,
               reason = ''Missing token transfer parameters (token, recipient, or amount)''\<rparr>"
proof (intro conjI impI allI)
  assume "\<not> isBlockchainAction a"
  then show "evaluateBlockchainAction rt a
        = Some \<lparr>approved = True, reason = ''Not a blockchain action''\<rparr>"
    by (simp add: evaluateBlockchainAction_def)
next
  show "evaluateBlockchainAction rt
          \<lparr>action = ''transferToken'', params = JObj [], justification = j\<rparr>
       = Some \<lparr>approved = False,
               reason = ''Missing token transfer parameters (token, recipient, or amount)''\<rparr>"
    by (simp add: evaluateBlockchainAction_def isBlockchainAction_def blockchainActions_def
        validateActionParams_def param_missing_def obj_get_def)
next
  assume m: "isBlockchainAction a \<and> params a \<noteq> JUndefined \<and> params a \<noteq> JNull"
  then have d: "params a \<noteq> JUndefined" "params a \<noteq> JNull" and b: "isBlockchainAction a"
    by simp_all
  note v = validateActionParams_eq [OF d b]
  {
    assume "\<not> paramsPresent a"
    then show "evaluateBlockchainAction rt a
             = Some \<lparr>approved = False, reason = missingReason (action a)\<rparr>"
      by (simp add: evaluateBlockchainAction_def b v)
  }
  assume p: "paramsPresent a"
  have e: "evaluateBlockchainAction rt a = addressCheckFrom rt a"
    by (simp add: evaluateBlockchainAction_def b v p)
  {
    fix s
    assume "js_get_opt (params a) ''to'' = JStr s \<and> s \<in> set knownMaliciousAddresses"
    then show "evaluateBlockchainAction rt a
                = Some \<lparr>approved = False,
                        reason = ''Malicious recipient address: Address is known to be associated with scams or malicious activities.''\<rparr>"
      unfolding e using addressCheckFrom_eq(1) [OF d] by blast
  }
  {
    fix s
    assume "js_get_opt (params a) ''to'' = JStr s \<and> s \<notin> set knownMaliciousAddresses
                \<and> starts_with s ''0x000''"
    then show "evaluateBlockchainAction rt a
                = Some \<lparr>approved = False,
                        reason = ''Suspicious recipient address: Address matches suspicious pattern (starts with 0x000).''\<rparr>"
      unfolding e using addressCheckFrom_eq(2) [OF d] by blast
  }
  assume r: "recipientCleared a"
  have e': "evaluateBlockchainAction rt a = contractCheckFrom rt a"
    unfolding e by (rule addressCheckFrom_eq(3) [OF d r])
  {
    assume h: "hasCallData rt a \<and> \<not> trustedContract a
                 \<and> (\<exists>s. js_get_opt (params a) ''to'' = JStr s)
                 \<and> js_includes (js_get_opt (params a) ''data'') ''selfdestruct'' = Some True"
    then obtain s where s: "js_get_opt (params a) ''to'' = JStr s" by blast
    with h have "\<not> starts_with s ''0xsafe''" by (simp add: trustedContract_def)
    with h s show "evaluateBlockchainAction rt a
                   = Some \<lparr>approved = False,
                           reason = ''Unsafe contract interaction: Contract interaction includes dangerous operations (selfdestruct).''\<rparr>"
      unfolding e' using contractCheckFrom_eq(3) [OF d] by blast
  }
  {
    assume h: "hasCallData rt a \<and> \<not> trustedContract a
                 \<and> (\<exists>s. js_get_opt (params a) ''to'' = JStr s)
                 \<and> js_includes (js_get_opt (params a) ''data'') ''selfdestruct'' = Some False"
    then obtain s where s: "js_get_opt (params a) ''to'' = JStr s" by blast
    with h have "\<not> starts_with s ''0xsafe''" by (simp add: trustedContract_def)
    with h s show "evaluateBlockchainAction rt a
                   = Some \<lparr>approved = False,
                           reason = ''Unsafe contract interaction: Contract safety could not be verified.''\<rparr>"
      unfolding e' using contractCheckFrom_eq(4) [OF d] by blast
  }
  assume c: "\<not> hasCallData rt a \<or> trustedContract a"
  have e'': "evaluateBlockchainAction rt a = valueCheckFrom rt a"
  proof (cases "hasCallData rt a")
    case False
    then show ?thesis unfolding e' by (rule contractCheckFrom_eq(1) [OF d])
  next
    case True
    with c have t: "trustedContract a" by simp
    then obtain s where "js_get_opt (params a) ''to'' = JStr s" "starts_with s ''0xsafe''"
      by (auto simp: trustedContract_def split: jsval.splits)
    with True show ?thesis unfolding e' using contractCheckFrom_eq(2) [OF d] by blast
  qed
  {
    assume "valueExceeds rt a"
    then show "evaluateBlockchainAction rt a = Some (valueRejection rt a)"
      unfolding e'' by (simp add: valueCheckFrom_eq [OF d])
  }
  {
    assume "\<not> valueExceeds rt a"
    then show "evaluateBlockchainAction rt a
                      = Some \<lparr>approved = True,
                              reason = ''Blockchain action passed all ethical checks''\<rparr>"
      unfolding e'' by (simp add: valueCheckFrom_eq [OF d])
  }
qed

text \<open>
  One action per outcome. The last one has a malicious recipient, dangerous call data and
  a value of 5000 at once, and is rejected for the recipient: the first failing check.
\<close>

theorem evaluateBlockchainAction_order_samples:
  "evaluateBlockchainAction sample_runtime log_sample
     = Some \<lparr>approved = True, reason = ''Not a blockchain action''\<rparr>
   \<and> evaluateBlockchainAction sample_runtime (monetary_sample ''transferToken'' [])
     = Some \<lparr>approved = False,
             reason = ''Missing token transfer parameters (token, recipient, or amount)''\<rparr>
   \<and> evaluateBlockchainAction sample_runtime
        (monetary_sample ''executeTransaction'' [(''to'', JStr ''0x000abc'')])
     = Some \<lparr>approved = False,
             reason = ''Suspicious recipient address: Address matches suspicious pattern (starts with 0x000).''\<rparr>
   \<and> hasCallData sample_runtime
        (monetary_sample ''callContract'' [(''to'', JStr ''0xabc''), (''data'', JStr ''0xselfdestruct'')])
   \<and> evaluateBlockchainAction sample_runtime
        (monetary_sample ''callContract'' [(''to'', JStr ''0xabc''), (''data'', JStr ''0xselfdestruct'')])
     = Some \<lparr>approved = False,
             reason = ''Unsafe contract interaction: Contract interaction includes dangerous operations (selfdestruct).''\<rparr>
   \<and> evaluateBlockchainAction sample_runtime
        (monetary_sample ''callContract'' [(''to'', JStr ''0xabc''), (''data'', JStr ''0x1234'')])
     = Some \<lparr>approved = False,
             reason = ''Unsafe contract interaction: Contract safety could not be verified.''\<rparr>
   \<and> trustedContract
        (monetary_sample ''callContract''
           [(''to'', JStr ''0xsafe1''), (''data'', JStr ''0x1234''), (''value'', JNum (Fin 2000))])
   \<and> evaluateBlockchainAction sample_runtime
        (monetary_sample ''callContract''
           [(''to'', JStr ''0xsafe1''), (''data'', JStr ''0x1234''), (''value'', JNum (Fin 2000))])
     = Some \<lparr>approved = False,
             reason = ''Transaction value exceeds maximum allowed limit of 1000 ETH''\<rparr>
   \<and> evaluateBlockchainAction sample_runtime
        (monetary_sample ''executeTransaction'' [(''to'', JStr ''0xabc''), (''value'', JNum (Fin 5))])
     = Some \<lparr>approved = True, reason = ''Blockchain action passed all ethical checks''\<rparr>
   \<and> evaluateBlockchainAction sample_runtime
        (monetary_sample ''executeTransaction''
           [(''to'', JStr ''0xknownScamAddress''), (''data'', JStr ''0xselfdestruct''),
            (''value'', JNum (Fin 5000))])
     = Some \<lparr>approved = False,
             reason = ''Malicious recipient address: Address is known to be associated with scams or malicious activities.''\<rparr>"
proof -
  note T = evaluateBlockchainAction_order [where rt = sample_runtime]
  have w: ?thesis by code_simp
  from T [of log_sample]
       T [of "monetary_sample ''transferToken'' []"]
       T [of "monetary_sample ''executeTransaction'' [(''to'', JStr ''0x000abc'')]"]
       T [of "monetary_sample ''callContract''
                [(''to'', JStr ''0xabc''), (''data'', JStr ''0xselfdestruct'')]"]
       T [of "monetary_sample ''callContract''
                [(''to'', JStr ''0xabc''), (''data'', JStr ''0x1234'')]"]
       T [of "monetary_sample ''callContract''
                [(''to'', JStr ''0xsafe1''), (''data'', JStr ''0x1234''),
                 (''value'', JNum (Fin 2000))]"]
       T [of "monetary_sample ''executeTransaction''
                [(''to'', JStr ''0xabc''), (''value'', JNum (Fin 5))]"]
       T [of "monetary_sample ''executeTransaction''
                [(''to'', JStr ''0xknownScamAddress''), (''data'', JStr ''0xselfdestruct''),
                 (''value'', JNum (Fin 5000))]"]
       w
  show ?thesis by simp
qed

text \<open>
  C4. The claim applies these checks to every candidate action, and has check (d) reject
  as unverifiable whatever call data are neither sent to a \<^verbatim>\<open>0xsafe\<close> recipient
  nor contain \<^verbatim>\<open>selfdestruct\<close> (fail-closed). For call data that come without a
  recipient the code does not reject: the recipient check is guarded by
  \<^verbatim>\<open>if (action.params.to)\<close>, the contract check next to it is not, and
  \<^verbatim>\<open>checkContractSafety(undefined, data)\<close> raises a \<^verbatim>\<open>TypeError\<close> on
  \<^verbatim>\<open>contractAddress.startsWith\<close>. On the deployment
  \<^verbatim>\<open>{action: "deployContract", params: {bytecode: "0x6080", data: "0x1234"}}\<close> the
  checks (a), (b) and (c) pass, call data longer than 2 without \<^verbatim>\<open>selfdestruct\<close>
  are present, and the evaluator raises instead of returning the rejection.
\<close>

theorem evaluator_raises_without_recipient:
  "isBlockchainAction deployment_sample
   \<and> validateActionParams deployment_sample
       = Some \<lparr>valid = True, valid_reason = ''All required parameters are present''\<rparr>
   \<and> js_get (params deployment_sample) ''to'' = Some JUndefined
   \<and> hasCallData sample_runtime deployment_sample
   \<and> js_includes (js_get_opt (params deployment_sample) ''data'') ''selfdestruct'' = Some False
   \<and> checkContractSafety JUndefined (JStr ''0x1234'') = None
   \<and> evaluateBlockchainAction sample_runtime deployment_sample = None"
  by code_simp

subsection \<open>C5: where the stages return\<close>




subsection \<open>C6: the transaction scenario\<close>

text \<open>
  C6, as stated, has the proposer return the candidates in the order verifyRecipient,
  checkGasPrice, executeTransaction. \<^verbatim>\<open>reasonLayer\<close> pushes
  \<^verbatim>\<open>executeTransaction\<close> before \<^verbatim>\<open>checkGasPrice\<close>: on the scenario input the
  list is verifyRecipient, executeTransaction, checkGasPrice.
\<close>

theorem scenario_transaction_order_counterexample:
  "map_option (map action \<circ> proposedActions)
      (pipelineProposal sample_runtime scenario_transaction None)
     = Some [''verifyRecipient'', ''executeTransaction'', ''checkGasPrice'']
   \<and> map_option (map action \<circ> proposedActions)
        (pipelineProposal sample_runtime scenario_transaction None)
     \<noteq> Some [''verifyRecipient'', ''checkGasPrice'', ''executeTransaction'']"
  by code_simp

text \<open>
  C6, amended. For the input \<^verbatim>\<open>{hash:"0x1", from:"0xA", to:"0xB", value:1.5,
  data:"0x", chainId:"1"}\<close> with no context, the pipeline assigns the category
  transaction and the risk low, and proposes exactly the ordered list verifyRecipient,
  executeTransaction, checkGasPrice (no monitorTransaction); every proposed action is
  approved, nothing is rejected, no limitation and no uncertainty is recorded, the
  confidence is exactly 1, and the Boundary Decider at the default threshold does not
  defer.
\<close>

theorem scenario_transaction_run:
  "(\<exists>u. pipelineUnderstanding rt scenario_transaction None = Some u
        \<and> dataType (metadata u) = ''transaction''
        \<and> obj_get (categorizedData u) ''risk'' = JStr ''low'')
   \<and> pipelineProposal rt scenario_transaction None = Some transaction_proposal
   \<and> map action (proposedActions transaction_proposal)
       = [''verifyRecipient'', ''executeTransaction'', ''checkGasPrice'']
   \<and> (\<exists>out. carPipeline rt scenario_transaction None = Inr out
        \<and> approvedActions out = proposedActions transaction_proposal
        \<and> rejectedActions out = Some []
        \<and> limitations out = [] \<and> uncertainties out = []
        \<and> confidence out = Fin 1
        \<and> checkEpistemicBoundaries rt out None
            = \<lparr>shouldDefer = False, defer_reason = ''Within epistemic boundaries''\<rparr>)"
proof -
  let ?md = "\<lparr>dataType = ''transaction'', source = Src (JStr ''Ethereum''),
              timestamp = Fin (Date_now rt)\<rparr>"
  let ?u = "\<lparr>categorizedData = transaction_record
                @ [(''transactionType'', JStr ''value-transfer''), (''risk'', JStr ''low'')],
             metadata = ?md\<rparr>"
  have u: "pipelineUnderstanding rt scenario_transaction None = Some ?u"
    by (simp add: pipelineUnderstanding_def scenario_sensibility scenario_understanding)
  have risk: "obj_get (categorizedData ?u) ''risk'' = JStr ''low''"
    by (simp add: obj_get_def transaction_record_def)
  have p: "pipelineProposal rt scenario_transaction None = Some transaction_proposal"
    by (simp add: pipelineProposal_def u scenario_reason)
  have names: "map action (proposedActions transaction_proposal)
       = [''verifyRecipient'', ''executeTransaction'', ''checkGasPrice'']"
    by (simp add: transaction_proposal_def)
  have c: "\<exists>out. carPipeline rt scenario_transaction None = Inr out
        \<and> approvedActions out = proposedActions transaction_proposal
        \<and> rejectedActions out = Some []
        \<and> limitations out = [] \<and> uncertainties out = []
        \<and> confidence out = Fin 1
        \<and> checkEpistemicBoundaries rt out None
            = \<lparr>shouldDefer = False, defer_reason = ''Within epistemic boundaries''\<rparr>"
    by (simp add: carPipeline_stages p scenario_critique checkEpistemicBoundaries_def)
  from u risk p names c show ?thesis by simp
qed

theorem scenario_transaction_run_witness:
  "map_option (dataType \<circ> metadata) (pipelineUnderstanding sample_runtime scenario_transaction None)
     = Some ''transaction''
   \<and> pipelineProposal sample_runtime scenario_transaction None = Some transaction_proposal
   \<and> map_sum id confidence (carPipeline sample_runtime scenario_transaction None) = Inr (Fin 1)
   \<and> map_sum id (\<lambda>out. shouldDefer (checkEpistemicBoundaries sample_runtime out None))
        (carPipeline sample_runtime scenario_transaction None) = Inr False"
proof -
  have w: ?thesis by code_simp
  from scenario_transaction_run [of sample_runtime] w show ?thesis by simp
qed

subsection \<open>C7: unclassifiable input\<close>



subsection \<open>C8: the Enricher leaves the normalized fields alone\<close>

text \<open>
  C8. For every record the normalizer produces for a category, the Enricher's output
  (when it returns) keeps the metadata and is the input record followed by the derived
  fields of the category, in this order: transactionType and risk for a transaction,
  intent and sentiment for a message, eventCategory for an event, nothing otherwise. So
  every field of the input keeps its value, and each derived field is the value of the
  corresponding helper on the input record.
\<close>

theorem enricher_frame:
  assumes "structureData rt raw ty ctx = Some rec"
    and "dataType md = ty"
    and "understandingLayer rt \<lparr>categorizedData = rec, metadata = md\<rparr> = Some out"
  shows "metadata out = md
       \<and> (\<exists>extra. categorizedData out = rec @ extra \<and> map fst extra = derivedFields ty)
       \<and> (\<forall>k v. map_of rec k = Some v \<longrightarrow> map_of (categorizedData out) k = Some v)
       \<and> (ty = ''transaction'' \<longrightarrow>
            map_option JStr (categorizeTransaction rt rec)
              = Some (obj_get (categorizedData out) ''transactionType'')
          \<and> obj_get (categorizedData out) ''risk'' = JStr (assessRisk rt rec))
       \<and> (ty = ''message'' \<longrightarrow>
            map_option JStr (detectIntent rt rec) = Some (obj_get (categorizedData out) ''intent'')
          \<and> map_option JStr (analyzeSentiment rt rec)
              = Some (obj_get (categorizedData out) ''sentiment''))
       \<and> (ty = ''event'' \<longrightarrow>
            obj_get (categorizedData out) ''eventCategory'' = JStr (categorizeEvent rec))"
proof -
  consider (t) "ty = ''transaction''" | (m) "ty = ''message''" | (e) "ty = ''event''"
    | (o) "ty \<noteq> ''transaction''" "ty \<noteq> ''message''" "ty \<noteq> ''event''"
    by blast
  then have main: "metadata out = md
       \<and> (\<exists>extra. categorizedData out = rec @ extra \<and> map fst extra = derivedFields ty)
       \<and> (ty = ''transaction'' \<longrightarrow>
            map_option JStr (categorizeTransaction rt rec)
              = Some (obj_get (categorizedData out) ''transactionType'')
          \<and> obj_get (categorizedData out) ''risk'' = JStr (assessRisk rt rec))
       \<and> (ty = ''message'' \<longrightarrow>
            map_option JStr (detectIntent rt rec) = Some (obj_get (categorizedData out) ''intent'')
          \<and> map_option JStr (analyzeSentiment rt rec)
              = Some (obj_get (categorizedData out) ''sentiment''))
       \<and> (ty = ''event'' \<longrightarrow>
            obj_get (categorizedData out) ''eventCategory'' = JStr (categorizeEvent rec))"
  proof cases
    case t
    from assms(1) t obtain h f to v d g c p where
      rec: "rec = [(''hash'', h), (''from'', f), (''to'', to), (''value'', v), (''data'', d),
                   (''gas'', g), (''chainId'', c), (''previousTxs'', p)]"
      by (auto simp: structureData_def split: bind_splits)
    from assms(3) assms(2) t obtain tt where
      tt: "categorizeTransaction rt rec = Some tt"
      and out: "out = \<lparr>categorizedData =
                         obj_set (obj_set rec ''transactionType'' (JStr tt)) ''risk''
                           (JStr (assessRisk rt rec)),
                       metadata = md\<rparr>"
      by (auto simp: understandingLayer_def Let_def split: bind_splits)
    have cd: "categorizedData out
                = rec @ [(''transactionType'', JStr tt), (''risk'', JStr (assessRisk rt rec))]"
      unfolding out by (simp add: rec obj_set_def)
    have g: "obj_get (rec @ [(''transactionType'', JStr tt),
                              (''risk'', JStr (assessRisk rt rec))]) ''transactionType''
               = JStr tt"
            "obj_get (rec @ [(''transactionType'', JStr tt),
                              (''risk'', JStr (assessRisk rt rec))]) ''risk''
               = JStr (assessRisk rt rec)"
      by (simp_all add: obj_get_def rec)
    show ?thesis
      unfolding cd by (simp add: t tt g out derivedFields_def)
  next
    case m
    from assms(1) m obtain c s ts h where
      rec: "rec = [(''content'', c), (''sender'', s), (''timestamp'', ts),
                   (''conversationHistory'', h)]"
      by (auto simp: structureData_def split: bind_splits)
    from assms(3) assms(2) m obtain i se where
      i: "detectIntent rt rec = Some i" and se: "analyzeSentiment rt rec = Some se"
      and out: "out = \<lparr>categorizedData =
                         obj_set (obj_set rec ''intent'' (JStr i)) ''sentiment'' (JStr se),
                       metadata = md\<rparr>"
      by (auto simp: understandingLayer_def Let_def split: bind_splits)
    have cd: "categorizedData out = rec @ [(''intent'', JStr i), (''sentiment'', JStr se)]"
      unfolding out by (simp add: rec obj_set_def)
    have g: "obj_get (rec @ [(''intent'', JStr i), (''sentiment'', JStr se)]) ''intent''
               = JStr i"
            "obj_get (rec @ [(''intent'', JStr i), (''sentiment'', JStr se)]) ''sentiment''
               = JStr se"
      by (simp_all add: obj_get_def rec)
    show ?thesis
      unfolding cd by (simp add: m i se g out derivedFields_def)
  next
    case e
    from assms(1) e obtain n p b h where
      rec: "rec = [(''eventName'', n), (''parameters'', p), (''blockNumber'', b),
                   (''transactionHash'', h)]"
      by (auto simp: structureData_def split: bind_splits)
    from assms(3) assms(2) e have
      out: "out = \<lparr>categorizedData =
                     obj_set rec ''eventCategory'' (JStr (categorizeEvent rec)),
                   metadata = md\<rparr>"
      by (auto simp: understandingLayer_def Let_def split: bind_splits)
    have cd: "categorizedData out = rec @ [(''eventCategory'', JStr (categorizeEvent rec))]"
      unfolding out by (simp add: rec obj_set_def)
    have g: "obj_get (rec @ [(''eventCategory'', JStr (categorizeEvent rec))])
                 ''eventCategory'' = JStr (categorizeEvent rec)"
      by (simp add: obj_get_def rec)
    show ?thesis
      unfolding cd by (simp add: e g out derivedFields_def)
  next
    case o
    from assms(3) assms(2) o have out: "out = \<lparr>categorizedData = rec, metadata = md\<rparr>"
      by (auto simp: understandingLayer_def Let_def)
    show ?thesis by (simp add: o out derivedFields_def)
  qed
  from main obtain extra where x: "categorizedData out = rec @ extra" by blast
  have "\<forall>k v. map_of rec k = Some v \<longrightarrow> map_of (categorizedData out) k = Some v"
    unfolding x by (simp add: map_of_append_left)
  with main show ?thesis by blast
qed

text \<open>The transaction scenario: the record gains \<open>transactionType\<close> and \<open>risk\<close>.\<close>

theorem enricher_frame_witness:
  "structureData sample_runtime scenario_transaction ''transaction'' None
     = Some transaction_record
   \<and> understandingLayer sample_runtime
        \<lparr>categorizedData = transaction_record,
         metadata = \<lparr>dataType = ''transaction'', source = Src (JStr ''Ethereum''),
                     timestamp = Fin 0\<rparr>\<rparr>
     = Some \<lparr>categorizedData = transaction_record
                @ [(''transactionType'', JStr ''value-transfer''), (''risk'', JStr ''low'')],
             metadata = \<lparr>dataType = ''transaction'', source = Src (JStr ''Ethereum''),
                         timestamp = Fin 0\<rparr>\<rparr>
   \<and> derivedFields ''transaction'' = [''transactionType'', ''risk'']"
proof -
  let ?md = "\<lparr>dataType = ''transaction'', source = Src (JStr ''Ethereum''),
              timestamp = Fin 0\<rparr>"
  have h1: "structureData sample_runtime scenario_transaction ''transaction'' None
              = Some transaction_record"
    by code_simp
  have h2: "dataType ?md = ''transaction''" by simp
  have h3: "understandingLayer sample_runtime
              \<lparr>categorizedData = transaction_record, metadata = ?md\<rparr>
            = Some \<lparr>categorizedData = transaction_record
                @ [(''transactionType'', JStr ''value-transfer''), (''risk'', JStr ''low'')],
             metadata = ?md\<rparr>"
    by code_simp
  have d: "derivedFields ''transaction'' = [''transactionType'', ''risk'']" by code_simp
  from enricher_frame [OF h1 h2 h3] h1 h3 d show ?thesis by simp
qed

subsection \<open>C9: what depends on the clock\<close>




subsection \<open>C10: the responses the pipeline proposes\<close>

text \<open>
  C10. Whatever record the proposer is given, a \<^verbatim>\<open>respondToMessage\<close> action it
  proposes carries one of the four template strings as its content (beside the record
  as its context); each template is shorter than 500 characters and contains none of
  "mislead", "manipulate", "hate speech"; so the Ethical Evaluator approves the action
  and the Epistemic Checker does not flag it. For a message record the proposer does
  propose such an action. In a run of the full pipeline, every proposed
  \<^verbatim>\<open>respondToMessage\<close> is therefore approved and unflagged, and none is among the
  rejected actions of the result.
\<close>

theorem respondToMessage_candidates_clean:
  "(\<forall>a \<in> set (proposedActions (reasonLayer rt u)). action a = ''respondToMessage'' \<longrightarrow>
       (\<exists>c \<in> set responseTemplates.
          params a = JObj [(''content'', JStr c), (''context'', JObj (categorizedData u))])
       \<and> categoricalImperative rt a = Some approvedVerdict
       \<and> checkEpistemicBoundaries_action rt a = Some \<lparr>uncertain = False, flag_reason = []\<rparr>)
   \<and> (\<forall>c \<in> set responseTemplates.
         length c < 500 \<and> \<not> str_includes c ''mislead'' \<and> \<not> str_includes c ''manipulate''
         \<and> \<not> str_includes c ''hate speech'')
   \<and> (dataType (metadata u) = ''message'' \<longrightarrow>
         (\<exists>a \<in> set (proposedActions (reasonLayer rt u)). action a = ''respondToMessage''))
   \<and> (\<forall>p. pipelineProposal rt raw ctx = Some p \<longrightarrow>
         (\<forall>a \<in> set (proposedActions p). action a = ''respondToMessage'' \<longrightarrow>
            categoricalImperative rt a = Some approvedVerdict
            \<and> checkEpistemicBoundaries_action rt a
                = Some \<lparr>uncertain = False, flag_reason = []\<rparr>))
   \<and> (\<forall>out. carPipeline rt raw ctx = Inr out \<longrightarrow>
         (\<exists>rej. rejectedActions out = Some rej
            \<and> (\<forall>a \<in> set rej. action a \<noteq> ''respondToMessage'')))"
proof (intro conjI ballI impI allI)
  fix a
  assume a: "a \<in> set (proposedActions (reasonLayer rt u))" and n: "action a = ''respondToMessage''"
  let ?c = "generateContextualResponse (categorizedData u)"
  note eq = reasonLayer_respond [OF a n]
  have t: "?c \<in> set responseTemplates" by (rule generateContextualResponse_template)
  show "\<exists>c \<in> set responseTemplates.
          params a = JObj [(''content'', JStr c), (''context'', JObj (categorizedData u))]"
    using t by (subst eq) auto
  show "categoricalImperative rt a = Some approvedVerdict"
    by (subst eq) (rule response_action_clean(1) [OF t])
  show "checkEpistemicBoundaries_action rt a = Some \<lparr>uncertain = False, flag_reason = []\<rparr>"
    by (subst eq) (rule response_action_clean(2) [OF t])
next
  fix c assume "c \<in> set responseTemplates"
  with templates_clean show "length c < 500" "\<not> str_includes c ''mislead''"
    "\<not> str_includes c ''manipulate''" "\<not> str_includes c ''hate speech''" by blast+
next
  assume "dataType (metadata u) = ''message''"
  then show "\<exists>a \<in> set (proposedActions (reasonLayer rt u)). action a = ''respondToMessage''"
    by (simp add: reasonLayer_def Let_def)
next
  fix p a
  assume p: "pipelineProposal rt raw ctx = Some p" and a: "a \<in> set (proposedActions p)"
    and n: "action a = ''respondToMessage''"
  from p obtain u' where p': "p = reasonLayer rt u'"
    by (auto simp: pipelineProposal_def)
  let ?c = "generateContextualResponse (categorizedData u')"
  note eq = reasonLayer_respond [OF a [unfolded p'] n]
  have t: "?c \<in> set responseTemplates" by (rule generateContextualResponse_template)
  show "categoricalImperative rt a = Some approvedVerdict"
    by (subst eq) (rule response_action_clean(1) [OF t])
  show "checkEpistemicBoundaries_action rt a = Some \<lparr>uncertain = False, flag_reason = []\<rparr>"
    by (subst eq) (rule response_action_clean(2) [OF t])
next
  fix out
  assume "carPipeline rt raw ctx = Inr out"
  from carPipeline_Inr [OF this] obtain p where
    p: "pipelineProposal rt raw ctx = Some p" and c: "critiqueLayer rt p = Some out"
    by blast
  from p obtain u' where p': "p = reasonLayer rt u'"
    by (auto simp: pipelineProposal_def)
  let ?c = "generateContextualResponse (categorizedData u')"
  have t: "?c \<in> set responseTemplates" by (rule generateContextualResponse_template)
  have "action a \<noteq> ''respondToMessage''"
    if a: "a \<in> set (proposedActions p)" and r: "\<not> ethicallyApproved rt a" for a
  proof
    assume n: "action a = ''respondToMessage''"
    note eq = reasonLayer_respond [OF a [unfolded p'] n]
    have "categoricalImperative rt a = Some approvedVerdict"
      by (subst eq) (rule response_action_clean(1) [OF t])
    with r show False by (simp add: ethicallyApproved_def approvedVerdict_def)
  qed
  with critiqueLayer_Some(1) [OF c]
  show "\<exists>rej. rejectedActions out = Some rej
            \<and> (\<forall>a \<in> set rej. action a \<noteq> ''respondToMessage'')"
    by simp
qed

text \<open>
  The message scenario of the specification: the pipeline's first two stages produce
  \<open>message_understanding\<close>, for which the proposer answers with the "question"
  template and a search, both approved and neither flagged.
\<close>

theorem respondToMessage_candidates_clean_witness:
  "sensibilityLayer sample_runtime \<lparr>rawData = scenario_message, inputContext = None\<rparr>
       \<bind> understandingLayer sample_runtime
     = Some message_understanding
   \<and> dataType (metadata message_understanding) = ''message''
   \<and> map action (proposedActions (reasonLayer sample_runtime message_understanding))
       = [''respondToMessage'', ''searchForAnswer'']
   \<and> map (\<lambda>a. js_get (params a) ''content'')
        (proposedActions (reasonLayer sample_runtime message_understanding))
       = [Some (JStr ''Let me look that up for you. I'll respond shortly.''), Some JUndefined]
   \<and> map (categoricalImperative sample_runtime)
        (proposedActions (reasonLayer sample_runtime message_understanding))
       = [Some approvedVerdict, Some approvedVerdict]
   \<and> map (checkEpistemicBoundaries_action sample_runtime)
        (proposedActions (reasonLayer sample_runtime message_understanding))
       = [Some \<lparr>uncertain = False, flag_reason = []\<rparr>,
          Some \<lparr>uncertain = False, flag_reason = []\<rparr>]"
proof -
  have w: ?thesis by code_simp
  from respondToMessage_candidates_clean
         [of sample_runtime message_understanding scenario_message None] w
  show ?thesis by simp
qed

end
